theory Spec2Isabelle
  imports Main
begin

section \<open>The RTSP health checker: values\<close>

text \<open>
  The program is \<^verbatim>\<open>rtsp-agents/rtsp-health-checker.py\<close>. A camera is whatever
  \<^verbatim>\<open>resp.json()\<close> decodes, so it is modelled as a decoded JSON value and every
  subscript is a lookup that can raise. Python's \<^verbatim>\<open>None\<close> is \<open>JNull\<close> (what
  JSON \<^verbatim>\<open>null\<close> decodes to); a method that falls off its end returns \<open>JNull\<close>.
  JSON numbers are modelled as integers.
\<close>

datatype json =
    JNull
  | JBool bool
  | JNum int
  | JStr string
  | JArr "json list"
  | JObj "(string \<times> json) list"

text \<open>Exceptions are values. The first two are raised by the program's own
  subscripts and calls, \<open>PyException\<close> by line 111, the others by the libraries.\<close>

datatype error =
    KeyError string
  | TypeError
  | PyException string
  | ValueError
  | FileNotFoundError
  | OSError
  | ConnectionError
  | JSONDecodeError
  | Cv2Error

text \<open>Truth value testing, as \<^verbatim>\<open>if camera:\<close> and \<^verbatim>\<open>if not camera_ids:\<close> do it.\<close>

fun truthy :: "json \<Rightarrow> bool" where
  "truthy JNull = False"
| "truthy (JBool b) = b"
| "truthy (JNum n) = (n \<noteq> 0)"
| "truthy (JStr s) = (s \<noteq> [])"
| "truthy (JArr xs) = (xs \<noteq> [])"
| "truthy (JObj kvs) = (kvs \<noteq> [])"

text \<open>\<^verbatim>\<open>camera['key']\<close>: a dict raises KeyError on a missing key, every other
  value raises TypeError on a string subscript.\<close>

fun getitem :: "json \<Rightarrow> string \<Rightarrow> error + json" where
  "getitem (JObj kvs) k = (case map_of kvs k of None \<Rightarrow> Inl (KeyError k) | Some v \<Rightarrow> Inr v)"
| "getitem JNull k = Inl TypeError"
| "getitem (JBool b) k = Inl TypeError"
| "getitem (JNum n) k = Inl TypeError"
| "getitem (JStr s) k = Inl TypeError"
| "getitem (JArr xs) k = Inl TypeError"

text \<open>\<^verbatim>\<open>len(x)\<close> and the iteration of \<^verbatim>\<open>enumerate(x)\<close>: lists, dicts (their
  keys) and strings (their characters) have them, \<^verbatim>\<open>None\<close>, booleans and
  numbers raise TypeError.\<close>

fun py_len :: "json \<Rightarrow> error + nat" where
  "py_len (JArr xs) = Inr (length xs)"
| "py_len (JObj kvs) = Inr (length (remdups (map fst kvs)))"
| "py_len (JStr s) = Inr (length s)"
| "py_len JNull = Inl TypeError"
| "py_len (JBool b) = Inl TypeError"
| "py_len (JNum n) = Inl TypeError"

fun py_iter :: "json \<Rightarrow> error + json list" where
  "py_iter (JArr xs) = Inr xs"
| "py_iter (JObj kvs) = Inr (map JStr (remdups (map fst kvs)))"
| "py_iter (JStr s) = Inr (map (\<lambda>c. JStr [c]) s)"
| "py_iter JNull = Inl TypeError"
| "py_iter (JBool b) = Inl TypeError"
| "py_iter (JNum n) = Inl TypeError"

definition bnd_e :: "error + 'a \<Rightarrow> ('a \<Rightarrow> error + 'b) \<Rightarrow> error + 'b" where
  "bnd_e r f = (case r of Inl e \<Rightarrow> Inl e | Inr x \<Rightarrow> f x)"

text \<open>Lines 17-26.\<close>

definition camera_statuses :: "string list" where
  "camera_statuses = [''OPEN'', ''UNAUTHORIZED'', ''NOT_FOUND'', ''UNCONNECTED'']"

section \<open>Effects\<close>

text \<open>
  Everything the program does to the outside is an event of the trace, in the
  order it happens. What \<^verbatim>\<open>print\<close> writes is kept as the message and its
  arguments rather than as formatted text, and \<^verbatim>\<open>print\<close> itself is taken to
  succeed: an encoding error of the output stream is not modelled.
\<close>

type_synonym frame = "nat list"

text \<open>What a file holds: the JPEG encoding of a frame (\<^verbatim>\<open>cv2.imwrite\<close>), the
  serialisation of a value (\<^verbatim>\<open>json.dump\<close>), or nothing yet (a file just opened
  for writing).\<close>

datatype file_data = Image frame | Document json | Empty_file

datatype msg =
    Msg_exception error
  | Msg_status_code nat
  | Msg_text string
  | Msg_found nat
  | Msg_completed json json json nat nat
  | Msg_failed json json json nat nat
  | Msg_downloading
  | Msg_no_cameras_downloaded
  | Msg_discovered nat
  | Msg_asking nat nat
  | Msg_no_cameras_passed
  | Msg_starting_daemon
  | Msg_sleeping int

datatype io_op = Open_read string | Open_write string | Write_text string

datatype event =
    Http_get string
  | Http_put string json
  | Video_capture json
  | Imwrite string frame
  | Open_file string string
  | Json_dump string json
  | Print msg
  | Sleep int

text \<open>A response of the \<^verbatim>\<open>requests\<close> library: \<^verbatim>\<open>resp.ok\<close> holds unless the
  status is a client or server error (400 to 599), \<^verbatim>\<open>resp.json()\<close> decodes the body
  or raises.\<close>

record response =
  status_code :: nat
  resp_text :: string
  resp_json :: "error + json"

definition ok :: "response \<Rightarrow> bool" where
  "ok resp = (\<not> (400 \<le> status_code resp \<and> status_code resp < 600))"

text \<open>
  The state: the outside world (the inventory service, the cameras, the
  operating system) as an abstract value that only the library calls below read and
  change, the files of the output directory, and the trace.
\<close>

record 'w state =
  world :: 'w
  files :: "string \<rightharpoonup> file_data"
  trace :: "event list"

text \<open>
  The libraries the program calls. Each effectful call answers from the world
  and may change it; it returns a value or raises. \<open>cv2_imwrite\<close> returns
  whether the file was written. The last two are pure library functions:
  \<^verbatim>\<open>str()\<close> of an f-string field, and \<^verbatim>\<open>base64.b64encode(...).decode('utf-8')\<close>
  of what was read from a file.
\<close>

record 'w env =
  session_get :: "string \<Rightarrow> 'w \<Rightarrow> (error + response) \<times> 'w"
  requests_put :: "string \<Rightarrow> json \<Rightarrow> 'w \<Rightarrow> (error + response) \<times> 'w"
  video_capture_read :: "json \<Rightarrow> 'w \<Rightarrow> (error + bool \<times> frame) \<times> 'w"
  cv2_imwrite :: "string \<Rightarrow> frame \<Rightarrow> 'w \<Rightarrow> (error + bool) \<times> 'w"
  os_io :: "io_op \<Rightarrow> 'w \<Rightarrow> (error + unit) \<times> 'w"
  py_str :: "json \<Rightarrow> string"
  b64encode :: "file_data \<Rightarrow> string"

type_synonym ('a, 'w) prog = "'w state \<Rightarrow> (error + 'a) \<times> 'w state"

definition ret :: "'a \<Rightarrow> ('a, 'w) prog" where
  "ret x s = (Inr x, s)"

definition raise :: "error \<Rightarrow> ('a, 'w) prog" where
  "raise e s = (Inl e, s)"

definition lift :: "error + 'a \<Rightarrow> ('a, 'w) prog" where
  "lift r s = (r, s)"

definition bnd :: "('a, 'w) prog \<Rightarrow> ('a \<Rightarrow> ('b, 'w) prog) \<Rightarrow> ('b, 'w) prog" where
  "bnd m f s = (case m s of (Inl e, s') \<Rightarrow> (Inl e, s') | (Inr x, s') \<Rightarrow> f x s')"

text \<open>\<^verbatim>\<open>try: m except Exception as e: h e\<close>\<close>

definition catch :: "('a, 'w) prog \<Rightarrow> (error \<Rightarrow> ('a, 'w) prog) \<Rightarrow> ('a, 'w) prog" where
  "catch m h s = (case m s of (Inl e, s') \<Rightarrow> h e s' | (Inr x, s') \<Rightarrow> (Inr x, s'))"

definition emit :: "event \<Rightarrow> (unit, 'w) prog" where
  "emit ev s = (Inr (), s\<lparr>trace := trace s @ [ev]\<rparr>)"

text \<open>A call of a library: the event is recorded, the world answers.\<close>

definition extern :: "event \<Rightarrow> ('w \<Rightarrow> (error + 'a) \<times> 'w) \<Rightarrow> ('a, 'w) prog" where
  "extern ev f s =
     (case f (world s) of (r, w') \<Rightarrow> (r, s\<lparr>world := w', trace := trace s @ [ev]\<rparr>))"

definition set_file :: "string \<Rightarrow> file_data \<Rightarrow> (unit, 'w) prog" where
  "set_file path data s = (Inr (), s\<lparr>files := (files s)(path \<mapsto> data)\<rparr>)"

text \<open>\<^verbatim>\<open>cv2.imwrite(path, frame)\<close>: the result is not looked at by the program.\<close>

definition imwrite :: "'w env \<Rightarrow> string \<Rightarrow> frame \<Rightarrow> (unit, 'w) prog" where
  "imwrite env path fr =
     bnd (extern (Imwrite path fr) (cv2_imwrite env path fr)) (\<lambda>written.
       if written then set_file path (Image fr) else ret ())"

text \<open>\<^verbatim>\<open>with open(path, "rb") as f: f.read()\<close>\<close>

definition read_binary :: "'w env \<Rightarrow> string \<Rightarrow> (file_data, 'w) prog" where
  "read_binary env path =
     bnd (extern (Open_file path ''rb'') (os_io env (Open_read path))) (\<lambda>_.
       (\<lambda>s. case files s path of
              None \<Rightarrow> (Inl FileNotFoundError, s)
            | Some data \<Rightarrow> (Inr data, s)))"

text \<open>\<^verbatim>\<open>open(path, 'w')\<close> truncates the file.\<close>

definition open_write :: "'w env \<Rightarrow> string \<Rightarrow> (unit, 'w) prog" where
  "open_write env path =
     bnd (extern (Open_file path ''w'') (os_io env (Open_write path))) (\<lambda>_.
       set_file path Empty_file)"

definition json_dump :: "'w env \<Rightarrow> string \<Rightarrow> json \<Rightarrow> (unit, 'w) prog" where
  "json_dump env path v =
     bnd (extern (Json_dump path v) (os_io env (Write_text path))) (\<lambda>_.
       set_file path (Document v))"

section \<open>RtspBackendClient\<close>

record client =
  rtsp_backend_url :: string
  output_dir :: string

text \<open>The module's globals of lines 203-209.\<close>

record globals =
  global_output_dir :: string
  global_rtsp_backend_url :: string
  global_client :: client

text \<open>Lines 120-124, 133-137 and 194-198 without the decoding: the else branch
  prints and falls through to \<^verbatim>\<open>None\<close>.\<close>

definition print_failure :: "response \<Rightarrow> (json, 'w) prog" where
  "print_failure resp =
     bnd (emit (Print (Msg_status_code (status_code resp)))) (\<lambda>_.
     bnd (emit (Print (Msg_text (resp_text resp)))) (\<lambda>_.
     ret JNull))"

definition print_exception :: "error \<Rightarrow> (json, 'w) prog" where
  "print_exception e = bnd (emit (Print (Msg_exception e))) (\<lambda>_. ret JNull)"

text \<open>Lines 109-126.\<close>

definition get_camera :: "'w env \<Rightarrow> client \<Rightarrow> json \<Rightarrow> json \<Rightarrow> (json, 'w) prog" where
  "get_camera env self camera_id camera_rtsp_url =
     (if truthy camera_id \<and> truthy camera_rtsp_url then raise (PyException ''Stop doing that.'')
      else catch
        (let url = rtsp_backend_url self @ ''/cameras'';
             url = (if truthy camera_id then url @ ''?id='' @ py_str env camera_id else url);
             url = (if truthy camera_rtsp_url
                    then url @ ''?rtspUrl='' @ py_str env camera_rtsp_url else url)
         in bnd (extern (Http_get url) (session_get env url)) (\<lambda>resp.
              if ok resp then lift (resp_json resp) else print_failure resp))
        print_exception)"

text \<open>Lines 128-139.\<close>

definition get_all_camera_ids :: "'w env \<Rightarrow> client \<Rightarrow> (json, 'w) prog" where
  "get_all_camera_ids env self =
     catch
       (let url = rtsp_backend_url self @ ''/cameras/ids''
        in bnd (extern (Http_get url) (session_get env url)) (\<lambda>resp.
             if ok resp then lift (bnd_e (resp_json resp) (\<lambda>v. getitem v ''cameraIds''))
             else print_failure resp))
       print_exception"

text \<open>Lines 189-200. The argument is the dict that \<open>client_health_check\<close>
  builds, an association list in insertion order. The URL is the module's
  global, not a field of \<open>self\<close>.\<close>

definition update_camera ::
  "'w env \<Rightarrow> globals \<Rightarrow> client \<Rightarrow> (string \<times> json) list \<Rightarrow> (json, 'w) prog" where
  "update_camera env g self camera =
     catch
       (bnd (if map_of camera ''rtspUrl'' \<noteq> None \<and> map_of camera ''url'' = None
             then bnd (lift (getitem (JObj camera) ''rtspUrl'')) (\<lambda>v.
                    ret (camera @ [(''url'', v)]))
             else ret camera) (\<lambda>camera.
        let url = global_rtsp_backend_url g @ ''/cameras/import''
        in bnd (extern (Http_put url (JObj camera)) (requests_put env url (JObj camera))) (\<lambda>resp.
             if ok resp then lift (resp_json resp) else print_failure resp)))
       print_exception"

text \<open>The dict literal of lines 159-166 and 176-183; its values are evaluated
  in the order written, the status last.\<close>

definition camera_to_save :: "json \<Rightarrow> error + json \<Rightarrow> error + json" where
  "camera_to_save camera status =
     bnd_e (getitem camera ''countryCode'') (\<lambda>countryCode.
     bnd_e (getitem camera ''countryName'') (\<lambda>countryName.
     bnd_e (getitem camera ''city'') (\<lambda>city.
     bnd_e (getitem camera ''rtspUrl'') (\<lambda>rtspUrl.
     bnd_e (getitem camera ''cameraId'') (\<lambda>cameraId.
     bnd_e status (\<lambda>status.
     Inr (JObj [(''countryCode'', countryCode), (''countryName'', countryName),
                (''city'', city), (''rtspUrl'', rtspUrl), (''cameraId'', cameraId),
                (''status'', status)])))))))"

definition img_path :: "'w env \<Rightarrow> client \<Rightarrow> json \<Rightarrow> string" where
  "img_path env self cameraId = output_dir self @ ''/'' @ py_str env cameraId @ ''.jpg''"

definition json_path :: "'w env \<Rightarrow> client \<Rightarrow> json \<Rightarrow> string" where
  "json_path env self cameraId = output_dir self @ ''/'' @ py_str env cameraId @ ''.json''"

text \<open>Lines 146-168, the branch taken when a frame was read.\<close>

definition persist_open :: "'w env \<Rightarrow> globals \<Rightarrow> client \<Rightarrow> json \<Rightarrow> frame \<Rightarrow> (json, 'w) prog" where
  "persist_open env g self camera fr =
     bnd (lift (getitem camera ''cameraId'')) (\<lambda>cameraId.
     let img_file_name = img_path env self cameraId in
     bnd (imwrite env img_file_name fr) (\<lambda>_.
     bnd (read_binary env img_file_name) (\<lambda>data.
     let base64ImageData = b64encode env data in
     bnd (lift (getitem camera ''rtspUrl'')) (\<lambda>url.
     let updated_camera = [(''status'', JStr ''OPEN''), (''url'', url),
                           (''base64ImageData'', JStr base64ImageData)] in
     bnd (lift (getitem camera ''cameraId'')) (\<lambda>cameraId.
     bnd (open_write env (json_path env self cameraId)) (\<lambda>_.
     bnd (lift (camera_to_save camera (getitem (JObj updated_camera) ''status''))) (\<lambda>doc.
     bnd (json_dump env (json_path env self cameraId) doc) (\<lambda>_.
     update_camera env g self updated_camera))))))))"

text \<open>Lines 169-185, the branch taken when no frame was read.\<close>

definition persist_unconnected :: "'w env \<Rightarrow> globals \<Rightarrow> client \<Rightarrow> json \<Rightarrow> (json, 'w) prog" where
  "persist_unconnected env g self camera =
     bnd (lift (getitem camera ''rtspUrl'')) (\<lambda>url.
     bnd (lift (getitem camera ''labels'')) (\<lambda>labels.
     let updated_camera = [(''status'', JStr ''UNCONNECTED''), (''url'', url),
                           (''labels'', labels)] in
     bnd (lift (getitem camera ''cameraId'')) (\<lambda>cameraId.
     bnd (open_write env (json_path env self cameraId)) (\<lambda>_.
     bnd (lift (camera_to_save camera (Inr (JStr ''UNCONNECTED'')))) (\<lambda>doc.
     bnd (json_dump env (json_path env self cameraId) doc) (\<lambda>_.
     update_camera env g self updated_camera))))))"

text \<open>Lines 141-187, the method \<^verbatim>\<open>RtspBackendClient.health_check\<close> (the name
  \<open>health_check\<close> is kept for the module's function). The subscript of line 142
  is outside the \<^verbatim>\<open>try\<close>.\<close>

definition client_health_check :: "'w env \<Rightarrow> globals \<Rightarrow> client \<Rightarrow> json \<Rightarrow> (json, 'w) prog" where
  "client_health_check env g self camera =
     bnd (lift (getitem camera ''rtspUrl'')) (\<lambda>camera_url.
     catch
       (bnd (extern (Video_capture camera_url) (video_capture_read env camera_url))
          (\<lambda>(is_connected, fr).
             if is_connected then persist_open env g self camera fr
             else persist_unconnected env g self camera))
       print_exception)"

section \<open>The cycle\<close>

text \<open>Lines 217-223: the three subscripts of the f-string, then the line.\<close>

definition report_line :: "json \<Rightarrow> json \<Rightarrow> nat \<Rightarrow> nat \<Rightarrow> error + msg" where
  "report_line camera is_updated i n =
     bnd_e (getitem camera ''cameraId'') (\<lambda>cameraId.
     bnd_e (getitem camera ''rtspUrl'') (\<lambda>rtspUrl.
     bnd_e (getitem camera ''status'') (\<lambda>status.
     Inr (if truthy is_updated then Msg_completed cameraId rtspUrl status (i + 1) n
          else Msg_failed cameraId rtspUrl status (i + 1) n))))"

text \<open>Lines 214-223, the loop of the module's \<^verbatim>\<open>health_check\<close>, over the
  global client; \<open>n\<close> is \<^verbatim>\<open>len(cameras)\<close> and \<open>i\<close> the index.\<close>

fun health_check_loop :: "'w env \<Rightarrow> globals \<Rightarrow> nat \<Rightarrow> nat \<Rightarrow> json list \<Rightarrow> (unit, 'w) prog" where
  "health_check_loop env g n i [] = ret ()"
| "health_check_loop env g n i (camera # cameras) =
     bnd (client_health_check env g (global_client g) camera) (\<lambda>is_updated.
     bnd (lift (report_line camera is_updated i n)) (\<lambda>line.
     bnd (emit (Print line)) (\<lambda>_.
     health_check_loop env g n (Suc i) cameras)))"

text \<open>Lines 212-223.\<close>

definition health_check :: "'w env \<Rightarrow> globals \<Rightarrow> json list \<Rightarrow> (unit, 'w) prog" where
  "health_check env g cameras =
     bnd (emit (Print (Msg_found (length cameras)))) (\<lambda>_.
     health_check_loop env g (length cameras) 0 cameras)"

text \<open>Lines 233-238, the loop that fetches each listed id; \<open>cameras\<close> is the
  list built so far.\<close>

fun fetch_loop ::
  "'w env \<Rightarrow> client \<Rightarrow> nat \<Rightarrow> nat \<Rightarrow> json list \<Rightarrow> json list \<Rightarrow> (json list, 'w) prog" where
  "fetch_loop env client n i [] cameras = ret cameras"
| "fetch_loop env client n i (camera_id # camera_ids) cameras =
     bnd (emit (Print (Msg_asking (i + 1) n))) (\<lambda>_.
     bnd (get_camera env client camera_id JNull) (\<lambda>camera.
     fetch_loop env client n (Suc i) camera_ids
       (if truthy camera then cameras @ [camera] else cameras)))"

text \<open>Lines 226-242. \<open>threads_limit\<close> is the value of \<^verbatim>\<open>--threads\<close>.\<close>

definition download_cameras_and_do_health_check ::
  "'w env \<Rightarrow> globals \<Rightarrow> client \<Rightarrow> json \<Rightarrow> (unit, 'w) prog" where
  "download_cameras_and_do_health_check env g client threads_limit =
     bnd (emit (Print Msg_downloading)) (\<lambda>_.
     bnd (get_all_camera_ids env client) (\<lambda>camera_ids.
     bnd (if \<not> truthy camera_ids then emit (Print Msg_no_cameras_downloaded)
          else bnd (lift (py_len camera_ids)) (\<lambda>n. emit (Print (Msg_discovered n)))) (\<lambda>_.
     bnd (lift (py_iter camera_ids)) (\<lambda>ids.
     bnd (fetch_loop env client (length ids) 0 ids []) (\<lambda>cameras.
     if cameras \<noteq> [] then health_check env g cameras
     else emit (Print Msg_no_cameras_passed))))))"

record options =
  opt_rtsp_backend_url :: string
  opt_health_check :: bool
  opt_daemon :: bool
  opt_sleep_timer :: int
  opt_output :: string
  opt_threads :: json

text \<open>\<^verbatim>\<open>time.sleep\<close> raises ValueError on a negative length (the overflow of a
  very large one is not modelled).\<close>

definition py_sleep :: "int \<Rightarrow> (unit, 'w) prog" where
  "py_sleep t = (if t < 0 then raise ValueError else emit (Sleep t))"

text \<open>Lines 251-254, \<^verbatim>\<open>while True\<close>. The loop has no exit but an exception, so it
  is run on fuel, one unit a cycle: the result \<open>None\<close> says that it is still
  running when the fuel is gone, with the state reached so far.\<close>

fun daemon_loop ::
  "nat \<Rightarrow> 'w env \<Rightarrow> globals \<Rightarrow> options \<Rightarrow> 'w state \<Rightarrow> (error + unit) option \<times> 'w state" where
  "daemon_loop 0 env g opts s = (None, s)"
| "daemon_loop (Suc fuel) env g opts s =
     (case bnd (download_cameras_and_do_health_check env g (global_client g) (opt_threads opts))
             (\<lambda>_. bnd (emit (Print (Msg_sleeping (opt_sleep_timer opts)))) (\<lambda>_.
                  py_sleep (opt_sleep_timer opts))) s of
        (Inl e, s') \<Rightarrow> (Some (Inl e), s')
      | (Inr _, s') \<Rightarrow> daemon_loop fuel env g opts s')"

text \<open>Lines 245-256.\<close>

definition main ::
  "nat \<Rightarrow> 'w env \<Rightarrow> globals \<Rightarrow> options \<Rightarrow> 'w state \<Rightarrow> (error + unit) option \<times> 'w state" where
  "main fuel env g opts s =
     (if opt_health_check opts then
        if opt_daemon opts then
          (case emit (Print Msg_starting_daemon) s of
             (_, s') \<Rightarrow> daemon_loop fuel env g opts s')
        else (case download_cameras_and_do_health_check env g (global_client g) (opt_threads opts) s of
                (r, s') \<Rightarrow> (Some r, s'))
      else (Some (Inr ()), s))"

section \<open>Notions used in the statements\<close>

fun is_print :: "event \<Rightarrow> bool" where
  "is_print (Print m) = True"
| "is_print _ = False"

fun is_get_or_print :: "event \<Rightarrow> bool" where
  "is_get_or_print (Http_get url) = True"
| "is_get_or_print (Print m) = True"
| "is_get_or_print _ = False"

fun is_capture :: "event \<Rightarrow> bool" where
  "is_capture (Video_capture url) = True"
| "is_capture _ = False"

text \<open>The URLs that were probed, in the order of the trace.\<close>

fun captured :: "event list \<Rightarrow> json list" where
  "captured [] = []"
| "captured (Video_capture url # evs) = url # captured evs"
| "captured (ev # evs) = captured evs"

text \<open>A dict that has each of the keys.\<close>

fun has_keys :: "json \<Rightarrow> string list \<Rightarrow> bool" where
  "has_keys (JObj kvs) ks = list_all (\<lambda>k. map_of kvs k \<noteq> None) ks"
| "has_keys v ks = False"

definition field_of :: "json \<Rightarrow> string \<Rightarrow> json" where
  "field_of camera k = (case getitem camera k of Inr v \<Rightarrow> v | Inl e \<Rightarrow> JNull)"

definition rtsp_url_of :: "json \<Rightarrow> json" where
  "rtsp_url_of camera = (case getitem camera ''rtspUrl'' of Inr url \<Rightarrow> url | Inl e \<Rightarrow> JNull)"

text \<open>The operating system and \<^verbatim>\<open>cv2.imwrite\<close> carry out every file operation
  they are asked for.\<close>

definition disk_ok :: "'w env \<Rightarrow> bool" where
  "disk_ok env =
     ((\<forall>op w. fst (os_io env op w) = Inr ()) \<and>
      (\<forall>path fr w. fst (cv2_imwrite env path fr w) = Inr True))"

text \<open>The answers to a fetch after which \<open>get_camera\<close> has no record to return:
  a transport error, a response that is not a success, a body that does not
  decode, and a decoded body that is falsy.\<close>

fun absent :: "error + response \<Rightarrow> bool" where
  "absent (Inl e) = True"
| "absent (Inr resp) =
     (\<not> ok resp \<or> (case resp_json resp of Inl e \<Rightarrow> True | Inr v \<Rightarrow> \<not> truthy v))"

text \<open>The URL that \<open>get_camera\<close> requests for an id alone.\<close>

definition fetch_url :: "'w env \<Rightarrow> client \<Rightarrow> json \<Rightarrow> string" where
  "fetch_url env self camera_id =
     (if truthy camera_id then rtsp_backend_url self @ ''/cameras'' @ ''?id='' @ py_str env camera_id
      else rtsp_backend_url self @ ''/cameras'')"

text \<open>An event that writes a status (a report or a metadata document) writes
  one of \<open>S\<close>.\<close>

fun writes_status_in :: "string list \<Rightarrow> event \<Rightarrow> bool" where
  "writes_status_in S (Http_put url body) =
     list_ex (\<lambda>st. getitem body ''status'' = Inr (JStr st)) S"
| "writes_status_in S (Json_dump path doc) =
     list_ex (\<lambda>st. getitem doc ''status'' = Inr (JStr st)) S"
| "writes_status_in S ev = True"

text \<open>The metadata document of lines 159-166 and 176-183.\<close>

definition metadata :: "json \<Rightarrow> json \<Rightarrow> json \<Rightarrow> json \<Rightarrow> json \<Rightarrow> string \<Rightarrow> json" where
  "metadata countryCode countryName city rtspUrl cameraId status =
     JObj [(''countryCode'', countryCode), (''countryName'', countryName), (''city'', city),
           (''rtspUrl'', rtspUrl), (''cameraId'', cameraId), (''status'', JStr status)]"

text \<open>\<open>post m s Q\<close>: the result and the final state of \<open>m\<close> run from \<open>s\<close>
  satisfy \<open>Q\<close>. \<open>emits_only P m\<close>: from every state, \<open>m\<close> appends to the trace
  only events that satisfy \<open>P\<close>.\<close>

definition post :: "('a, 'w) prog \<Rightarrow> 'w state \<Rightarrow> (error + 'a \<Rightarrow> 'w state \<Rightarrow> bool) \<Rightarrow> bool" where
  "post m s Q = Q (fst (m s)) (snd (m s))"

definition extends_by :: "(event \<Rightarrow> bool) \<Rightarrow> 'w state \<Rightarrow> 'w state \<Rightarrow> bool" where
  "extends_by P s s' = (\<exists>evs. trace s' = trace s @ evs \<and> list_all P evs)"

definition emits_only :: "(event \<Rightarrow> bool) \<Rightarrow> ('a, 'w) prog \<Rightarrow> bool" where
  "emits_only P m = (\<forall>s. extends_by P s (snd (m s)))"

section \<open>A scenario\<close>

text \<open>
  The inventory at \<^verbatim>\<open>http://h\<close> lists the ids 1, 2 and 3 and has no record for
  id 2. The world counts the probes made so far: the first probe of camera 1
  reads a frame, every other probe reads none.
\<close>

definition demo_client :: client where
  "demo_client = \<lparr>rtsp_backend_url = ''http://h'', output_dir = ''out''\<rparr>"

definition demo_globals :: globals where
  "demo_globals = \<lparr>global_output_dir = ''out'', global_rtsp_backend_url = ''http://h'',
                    global_client = demo_client\<rparr>"

definition demo_camera :: "int \<Rightarrow> string \<Rightarrow> json" where
  "demo_camera n url =
     JObj [(''cameraId'', JNum n), (''rtspUrl'', JStr url), (''countryCode'', JStr ''NL''),
           (''countryName'', JStr ''Netherlands''), (''city'', JStr ''Delft''),
           (''labels'', JArr []), (''status'', JStr ''OPEN'')]"

fun demo_str :: "json \<Rightarrow> string" where
  "demo_str (JStr s) = s"
| "demo_str (JNum n) = (if n = 1 then ''1'' else if n = 2 then ''2'' else ''3'')"
| "demo_str v = ''x''"

definition demo_get :: "string \<Rightarrow> nat \<Rightarrow> (error + response) \<times> nat" where
  "demo_get url w =
     (if url = ''http://h/cameras/ids'' then
        (Inr \<lparr>status_code = 200, resp_text = [],
              resp_json = Inr (JObj [(''cameraIds'', JArr [JNum 1, JNum 2, JNum 3])])\<rparr>, w)
      else if url = ''http://h/cameras?id=1'' then
        (Inr \<lparr>status_code = 200, resp_text = [],
              resp_json = Inr (demo_camera 1 ''rtsp://a'')\<rparr>, w)
      else if url = ''http://h/cameras?id=3'' then
        (Inr \<lparr>status_code = 200, resp_text = [],
              resp_json = Inr (demo_camera 3 ''rtsp://c'')\<rparr>, w)
      else (Inr \<lparr>status_code = 404, resp_text = ''no'', resp_json = Inl JSONDecodeError\<rparr>, w))"

definition demo_put :: "string \<Rightarrow> json \<Rightarrow> nat \<Rightarrow> (error + response) \<times> nat" where
  "demo_put url body w = (Inr \<lparr>status_code = 200, resp_text = [], resp_json = Inr body\<rparr>, w)"

definition demo_capture :: "json \<Rightarrow> nat \<Rightarrow> (error + bool \<times> frame) \<times> nat" where
  "demo_capture url w =
     (if url = JStr ''rtsp://a'' \<and> w = 0 then (Inr (True, [7]), Suc w)
      else (Inr (False, []), Suc w))"

definition demo_imwrite :: "string \<Rightarrow> frame \<Rightarrow> nat \<Rightarrow> (error + bool) \<times> nat" where
  "demo_imwrite path fr w = (Inr True, w)"

definition demo_io :: "io_op \<Rightarrow> nat \<Rightarrow> (error + unit) \<times> nat" where
  "demo_io op w = (Inr (), w)"

definition demo_b64 :: "file_data \<Rightarrow> string" where
  "demo_b64 d = (case d of Image fr \<Rightarrow> ''Bw=='' | Document v \<Rightarrow> ''e30='' | Empty_file \<Rightarrow> [])"

definition demo_env :: "nat env" where
  "demo_env = \<lparr>session_get = demo_get, requests_put = demo_put,
                video_capture_read = demo_capture, cv2_imwrite = demo_imwrite,
                os_io = demo_io, py_str = demo_str, b64encode = demo_b64\<rparr>"

text \<open>The same with the inventory unreachable, and with a capture that raises.\<close>

definition demo_get_offline :: "string \<Rightarrow> nat \<Rightarrow> (error + response) \<times> nat" where
  "demo_get_offline url w = (Inl ConnectionError, w)"

definition offline_env :: "nat env" where
  "offline_env = demo_env\<lparr>session_get := demo_get_offline\<rparr>"

definition demo_capture_raising :: "json \<Rightarrow> nat \<Rightarrow> (error + bool \<times> frame) \<times> nat" where
  "demo_capture_raising url w = (Inl Cv2Error, Suc w)"

definition raising_env :: "nat env" where
  "raising_env = demo_env\<lparr>video_capture_read := demo_capture_raising\<rparr>"

text \<open>Records that the inventory can answer with and that are no camera of the
  data model: camera 1 without its \<open>status\<close>, and a body that is an error
  message. In \<open>malformed_env\<close> the inventory answers the fetch of id 1 with the
  latter, with status 200.\<close>

definition record_without_status :: json where
  "record_without_status =
     JObj [(''cameraId'', JNum 1), (''rtspUrl'', JStr ''rtsp://a''), (''countryCode'', JStr ''NL''),
           (''countryName'', JStr ''Netherlands''), (''city'', JStr ''Delft''),
           (''labels'', JArr [])]"

definition error_body :: json where
  "error_body = JObj [(''error'', JStr ''gone'')]"

definition demo_get_malformed :: "string \<Rightarrow> nat \<Rightarrow> (error + response) \<times> nat" where
  "demo_get_malformed url w =
     (if url = ''http://h/cameras?id=1'' then
        (Inr \<lparr>status_code = 200, resp_text = [], resp_json = Inr error_body\<rparr>, w)
      else demo_get url w)"

definition malformed_env :: "nat env" where
  "malformed_env = demo_env\<lparr>session_get := demo_get_malformed\<rparr>"

definition demo_state :: "nat state" where
  "demo_state = \<lparr>world = 0, files = Map.empty, trace = []\<rparr>"

definition demo_options :: options where
  "demo_options = \<lparr>opt_rtsp_backend_url = ''http://h'', opt_health_check = True,
                    opt_daemon = False, opt_sleep_timer = 10, opt_output = ''out'',
                    opt_threads = JNum 50\<rparr>"

section \<open>Symbolic execution\<close>

lemma post_ret [simp]: "post (ret x) s Q = Q (Inr x) s"
  by (simp add: post_def ret_def)

lemma post_raise [simp]: "post (raise e) s Q = Q (Inl e) s"
  by (simp add: post_def raise_def)

lemma post_lift [simp]: "post (lift r) s Q = Q r s"
  by (simp add: post_def lift_def)

lemma post_emit [simp]: "post (emit ev) s Q = Q (Inr ()) (s\<lparr>trace := trace s @ [ev]\<rparr>)"
  by (simp add: post_def emit_def)

lemma post_set_file [simp]:
  "post (set_file path d) s Q = Q (Inr ()) (s\<lparr>files := (files s)(path \<mapsto> d)\<rparr>)"
  by (simp add: post_def set_file_def)

lemma post_extern [simp]:
  "post (extern ev f) s Q =
     Q (fst (f (world s))) (s\<lparr>world := snd (f (world s)), trace := trace s @ [ev]\<rparr>)"
  by (simp add: post_def extern_def split: prod.splits)

lemma post_bnd [simp]:
  "post (bnd m f) s Q =
     post m s (\<lambda>r s'. case r of Inl e \<Rightarrow> Q (Inl e) s' | Inr x \<Rightarrow> post (f x) s' Q)"
  by (simp add: post_def bnd_def split: prod.splits sum.splits)

lemma post_catch [simp]:
  "post (catch m h) s Q =
     post m s (\<lambda>r s'. case r of Inl e \<Rightarrow> post (h e) s' Q | Inr x \<Rightarrow> Q (Inr x) s')"
  by (simp add: post_def catch_def split: prod.splits sum.splits)

lemma post_case_prod [simp]:
  "post (case p of (a, b) \<Rightarrow> m a b) s Q = post (m (fst p) (snd p)) s Q"
  by (simp add: split_beta)

lemma post_read_binary [simp]:
  "post (read_binary env path) s Q =
     (case fst (os_io env (Open_read path) (world s)) of
        Inl e \<Rightarrow> Q (Inl e) (s\<lparr>world := snd (os_io env (Open_read path) (world s)),
                               trace := trace s @ [Open_file path ''rb'']\<rparr>)
      | Inr u \<Rightarrow> (case files s path of
           None \<Rightarrow> Q (Inl FileNotFoundError)
                     (s\<lparr>world := snd (os_io env (Open_read path) (world s)),
                        trace := trace s @ [Open_file path ''rb'']\<rparr>)
         | Some d \<Rightarrow> Q (Inr d)
                     (s\<lparr>world := snd (os_io env (Open_read path) (world s)),
                        trace := trace s @ [Open_file path ''rb'']\<rparr>)))"
  by (simp add: read_binary_def) (simp add: post_def split: sum.splits option.splits)

lemmas op_defs = print_failure_def print_exception_def imwrite_def open_write_def json_dump_def

section \<open>The client's requests\<close>

lemma update_camera_post:
  "post (update_camera env g self camera) s (\<lambda>r s'. (\<exists>x. r = Inr x) \<and> files s' = files s \<and>
      (\<exists>body rest. trace s' = trace s @ Http_put (global_rtsp_backend_url g @ ''/cameras/import'') (JObj body) # rest \<and> list_all is_print rest \<and>
        (map_of camera ''url'' \<noteq> None \<longrightarrow> body = camera)))"
  unfolding update_camera_def op_defs
  by (auto split: sum.splits option.splits simp: Let_def)

text \<open>
  Claim C10. The report goes to the module's global \<^verbatim>\<open>rtsp_backend_url\<close>, whatever
  client instance it is called on: \<open>update_camera\<close> is the same function for every
  two instances, and the first thing it does is a PUT to the global URL followed
  by \<^verbatim>\<open>/cameras/import\<close>; all it does after that is print.
\<close>

theorem update_camera_destination:
  "update_camera env g self camera = update_camera env g other camera \<and>
   (\<exists>body rest. trace (snd (update_camera env g self camera s)) =
        trace s @ Http_put (global_rtsp_backend_url g @ ''/cameras/import'') body # rest \<and>
        list_all is_print rest)"
proof
  show "update_camera env g self camera = update_camera env g other camera"
    by (simp add: update_camera_def)
  show "\<exists>body rest. trace (snd (update_camera env g self camera s)) =
        trace s @ Http_put (global_rtsp_backend_url g @ ''/cameras/import'') body # rest \<and>
        list_all is_print rest"
    using update_camera_post [of env g self camera s] unfolding post_def by blast
qed

text \<open>
  Claim C9, as stated, fails: a call that passes the id 0 together with an
  rtspUrl supplies both, and does not raise. Line 110 tests the truth value of
  the id, the id 0 is falsy, and the request for the rtspUrl is sent.
\<close>

theorem get_camera_falsy_id_counterexample:
  "fst (get_camera demo_env demo_client (JNum 0) (JStr ''rtsp://a'') demo_state) = Inr JNull \<and>
   trace (snd (get_camera demo_env demo_client (JNum 0) (JStr ''rtsp://a'') demo_state)) =
     [Http_get ''http://h/cameras?rtspUrl=rtsp://a'', Print (Msg_status_code 404),
      Print (Msg_text ''no'')]"
  by (simp add: get_camera_def demo_env_def demo_client_def demo_state_def demo_get_def ok_def
      bnd_def catch_def extern_def lift_def emit_def ret_def print_failure_def Let_def)

text \<open>
  Claim C9, as amended. Called with a camera id and an rtspUrl that are both
  truthy (the test of line 110), \<open>get_camera\<close> raises at once, with the state as
  it was: no request was made. On every other input, also when one of the two
  is given and falsy, it returns a value.
\<close>

theorem get_camera_raises_iff_both:
  "(truthy camera_id \<and> truthy camera_rtsp_url \<longrightarrow>
      get_camera env self camera_id camera_rtsp_url s = (Inl (PyException ''Stop doing that.''), s)) \<and>
   (\<not> (truthy camera_id \<and> truthy camera_rtsp_url) \<longrightarrow>
      (\<exists>r. fst (get_camera env self camera_id camera_rtsp_url s) = Inr r))"
proof (intro conjI impI)
  assume "truthy camera_id \<and> truthy camera_rtsp_url"
  then show "get_camera env self camera_id camera_rtsp_url s = (Inl (PyException ''Stop doing that.''), s)"
    by (simp add: get_camera_def raise_def)
next
  assume "\<not> (truthy camera_id \<and> truthy camera_rtsp_url)"
  then have "post (get_camera env self camera_id camera_rtsp_url) s (\<lambda>r s'. \<exists>x. r = Inr x)"
    unfolding get_camera_def op_defs by (auto split: sum.splits simp: Let_def)
  then show "\<exists>r. fst (get_camera env self camera_id camera_rtsp_url s) = Inr r"
    by (simp add: post_def)
qed

theorem get_camera_raises_iff_both_witness:
  "get_camera demo_env demo_client (JNum 1) (JStr ''rtsp://a'') demo_state =
     (Inl (PyException ''Stop doing that.''), demo_state) \<and>
   fst (get_camera demo_env demo_client (JNum 1) JNull demo_state) = Inr (demo_camera 1 ''rtsp://a'')"
proof
  show "get_camera demo_env demo_client (JNum 1) (JStr ''rtsp://a'') demo_state =
     (Inl (PyException ''Stop doing that.''), demo_state)"
    using get_camera_raises_iff_both [of "JNum 1" "JStr ''rtsp://a''" demo_env demo_client demo_state]
    by simp
  have "\<exists>r. fst (get_camera demo_env demo_client (JNum 1) JNull demo_state) = Inr r"
    using get_camera_raises_iff_both [of "JNum 1" JNull demo_env demo_client demo_state]
    by simp
  then show "fst (get_camera demo_env demo_client (JNum 1) JNull demo_state) = Inr (demo_camera 1 ''rtsp://a'')"
    by (simp add: get_camera_def demo_env_def demo_client_def demo_state_def demo_get_def ok_def
        bnd_def catch_def extern_def lift_def Let_def)
qed

section \<open>The order of a cycle\<close>

lemma bnd_assoc: "bnd (bnd m f) h = bnd m (\<lambda>x. bnd (f x) h)"
  by (rule ext) (simp add: bnd_def split: prod.splits sum.splits)

lemma bnd_ret_left: "bnd (ret x) f = f x"
  by (rule ext) (simp add: bnd_def ret_def)

lemma health_check_loop_append:
  "health_check_loop env g n i (cs1 @ cs2) =
     bnd (health_check_loop env g n i cs1) (\<lambda>_. health_check_loop env g n (i + length cs1) cs2)"
  by (induction cs1 arbitrary: i) (simp_all add: bnd_assoc bnd_ret_left)

lemma daemon_loop_sleep_timer_only:
  "opt_sleep_timer o1 = opt_sleep_timer o2 \<Longrightarrow>
   daemon_loop fuel env g o1 s = daemon_loop fuel env g o2 s"
proof (induction fuel arbitrary: s)
  case 0
  show ?case by simp
next
  case (Suc fuel)
  then show ?case
    by (simp add: download_cameras_and_do_health_check_def split: prod.splits sum.splits)
qed

text \<open>
  Claim C8. The value of \<^verbatim>\<open>--threads\<close> has no effect: a cycle is the same function
  of the environment and the state for every two values of it, and so is
  \<open>main\<close>. The cycle is sequential: the loop over a list of cameras is the loop
  over its first part, run to its end, and then the loop over the rest.
\<close>

theorem threads_option_has_no_effect:
  "download_cameras_and_do_health_check env g client t1 =
     download_cameras_and_do_health_check env g client t2 \<and>
   main fuel env g (opts\<lparr>opt_threads := t1\<rparr>) s = main fuel env g (opts\<lparr>opt_threads := t2\<rparr>) s \<and>
   health_check_loop env g n i (cs1 @ cs2) =
     bnd (health_check_loop env g n i cs1) (\<lambda>_. health_check_loop env g n (i + length cs1) cs2)"
proof (intro conjI)
  show "download_cameras_and_do_health_check env g client t1 =
     download_cameras_and_do_health_check env g client t2"
    by (simp add: download_cameras_and_do_health_check_def)
  show "main fuel env g (opts\<lparr>opt_threads := t1\<rparr>) s = main fuel env g (opts\<lparr>opt_threads := t2\<rparr>) s"
  proof -
    have "daemon_loop fuel env g (opts\<lparr>opt_threads := t1\<rparr>) s' =
          daemon_loop fuel env g (opts\<lparr>opt_threads := t2\<rparr>) s'" for s'
      by (rule daemon_loop_sleep_timer_only) simp
    then show ?thesis
      by (simp add: main_def download_cameras_and_do_health_check_def split: prod.splits)
  qed
  show "health_check_loop env g n i (cs1 @ cs2) =
     bnd (health_check_loop env g n i cs1) (\<lambda>_. health_check_loop env g n (i + length cs1) cs2)"
    by (rule health_check_loop_append)
qed


section \<open>The probe\<close>

lemmas demo_defs = demo_env_def demo_client_def demo_globals_def demo_state_def demo_get_def
  demo_put_def demo_capture_def demo_imwrite_def demo_io_def demo_b64_def demo_camera_def
  offline_env_def raising_env_def demo_get_offline_def demo_capture_raising_def

lemmas run_defs = bnd_def catch_def extern_def lift_def ret_def raise_def emit_def set_file_def
  print_failure_def print_exception_def ok_def bnd_e_def Let_def

lemma paths_differ [simp]: "img_path env self cid \<noteq> json_path env self cid'"
  "json_path env self cid' \<noteq> img_path env self cid"
proof -
  have "last (img_path env self cid) = CHR ''g''" by (simp add: img_path_def)
  moreover have "last (json_path env self cid') = CHR ''n''" by (simp add: json_path_def)
  ultimately show "img_path env self cid \<noteq> json_path env self cid'"
    "json_path env self cid' \<noteq> img_path env self cid" by auto
qed

lemma update_camera_wp:
  assumes "map_of camera ''url'' = Some u"
    and "\<And>r w' rest. list_all is_print rest \<Longrightarrow>
           Q (Inr r) (s\<lparr>world := w', trace := trace s @
               Http_put (global_rtsp_backend_url g @ ''/cameras/import'') (JObj camera) # rest\<rparr>)"
  shows "post (update_camera env g self camera) s Q"
proof -
  let ?url = "global_rtsp_backend_url g @ ''/cameras/import''"
  let ?a = "requests_put env ?url (JObj camera) (world s)"
  let ?s1 = "\<lambda>rest. s\<lparr>world := snd ?a, trace := trace s @ Http_put ?url (JObj camera) # rest\<rparr>"
  have q: "Q (Inr r) (?s1 rest)" if "list_all is_print rest" for r rest
    using assms(2) [OF that] .
  show ?thesis
  proof (cases "fst ?a")
    case (Inl e)
    with assms(1) q [of "[Print (Msg_exception e)]" JNull] show ?thesis
      by (simp add: update_camera_def op_defs Let_def)
  next
    case (Inr resp)
    show ?thesis
    proof (cases "ok resp")
      case True
      with Inr assms(1) q [of "[]"] q [of "[Print (Msg_exception e)]" JNull for e] show ?thesis
        by (auto simp: update_camera_def op_defs Let_def split: sum.splits)
    next
      case False
      with Inr assms(1)
        q [of "[Print (Msg_status_code (status_code resp)), Print (Msg_text (resp_text resp))]" JNull]
      show ?thesis
        by (simp add: update_camera_def op_defs Let_def)
    qed
  qed
qed


lemma persist_open_post:
  assumes "getitem camera ''rtspUrl'' = Inr url"
    and "getitem camera ''cameraId'' = Inr cid"
    and "getitem camera ''countryCode'' = Inr cc"
    and "getitem camera ''countryName'' = Inr cn"
    and "getitem camera ''city'' = Inr ci"
    and "disk_ok env"
  shows "post (persist_open env g self camera fr) s (\<lambda>r s'.
    (\<exists>x. r = Inr x) \<and>
    (\<exists>rest. list_all is_print rest \<and>
       trace s' = trace s @
           [Imwrite (img_path env self cid) fr,
            Open_file (img_path env self cid) ''rb'',
            Open_file (json_path env self cid) ''w'',
            Json_dump (json_path env self cid) (metadata cc cn ci url cid ''OPEN''),
            Http_put (global_rtsp_backend_url g @ ''/cameras/import'')
              (JObj [(''status'', JStr ''OPEN''), (''url'', url),
                     (''base64ImageData'', JStr (b64encode env (Image fr)))])] @ rest) \<and>
    files s' = (files s)(img_path env self cid \<mapsto> Image fr,
                         json_path env self cid \<mapsto> Document (metadata cc cn ci url cid ''OPEN'')))"
  using assms
  apply (simp add: persist_open_def camera_to_save_def metadata_def disk_ok_def op_defs
      bnd_e_def Let_def)
  apply (rule update_camera_wp)
   apply simp
  apply simp
  done

lemma persist_unconnected_post:
  assumes "getitem camera ''rtspUrl'' = Inr url"
    and "getitem camera ''cameraId'' = Inr cid"
    and "getitem camera ''countryCode'' = Inr cc"
    and "getitem camera ''countryName'' = Inr cn"
    and "getitem camera ''city'' = Inr ci"
    and "getitem camera ''labels'' = Inr ls"
    and "disk_ok env"
  shows "post (persist_unconnected env g self camera) s (\<lambda>r s'.
    (\<exists>x. r = Inr x) \<and>
    (\<exists>rest. list_all is_print rest \<and>
       trace s' = trace s @
           [Open_file (json_path env self cid) ''w'',
            Json_dump (json_path env self cid) (metadata cc cn ci url cid ''UNCONNECTED''),
            Http_put (global_rtsp_backend_url g @ ''/cameras/import'')
              (JObj [(''status'', JStr ''UNCONNECTED''), (''url'', url), (''labels'', ls)])] @ rest) \<and>
    files s' = (files s)(json_path env self cid \<mapsto>
                           Document (metadata cc cn ci url cid ''UNCONNECTED'')))"
  using assms
  apply (simp add: persist_unconnected_def camera_to_save_def metadata_def disk_ok_def op_defs
      bnd_e_def Let_def)
  apply (rule update_camera_wp)
   apply simp
  apply simp
  done


lemma client_health_check_after_capture:
  assumes "getitem camera ''rtspUrl'' = Inr url"
    and "fst (video_capture_read env url (world s)) = Inr (is_connected, fr)"
  shows "client_health_check env g self camera s =
           catch (if is_connected then persist_open env g self camera fr
                  else persist_unconnected env g self camera) print_exception
             (s\<lparr>world := snd (video_capture_read env url (world s)),
                trace := trace s @ [Video_capture url]\<rparr>)"
proof (cases "video_capture_read env url (world s)")
  case (Pair r w')
  with assms show ?thesis
    by (simp add: client_health_check_def bnd_def catch_def extern_def lift_def)
qed

lemma catch_returns: "fst (m s) = Inr x \<Longrightarrow> catch m h s = m s"
  by (cases "m s") (simp add: catch_def)

lemma client_health_check_run:
  assumes "getitem camera ''rtspUrl'' = Inr url"
    and "getitem camera ''cameraId'' = Inr cid"
    and "getitem camera ''countryCode'' = Inr cc"
    and "getitem camera ''countryName'' = Inr cn"
    and "getitem camera ''city'' = Inr ci"
    and "getitem camera ''labels'' = Inr ls"
    and "disk_ok env"
    and "fst (video_capture_read env url (world s)) = Inr (is_connected, fr)"
  shows "\<exists>r s' rest. client_health_check env g self camera s = (Inr r, s') \<and>
      list_all is_print rest \<and>
      (if is_connected then
         trace s' = trace s @
           [Video_capture url,
            Imwrite (img_path env self cid) fr,
            Open_file (img_path env self cid) ''rb'',
            Open_file (json_path env self cid) ''w'',
            Json_dump (json_path env self cid) (metadata cc cn ci url cid ''OPEN''),
            Http_put (global_rtsp_backend_url g @ ''/cameras/import'')
              (JObj [(''status'', JStr ''OPEN''), (''url'', url),
                     (''base64ImageData'', JStr (b64encode env (Image fr)))])] @ rest \<and>
         files s' = (files s)(img_path env self cid \<mapsto> Image fr,
           json_path env self cid \<mapsto> Document (metadata cc cn ci url cid ''OPEN''))
       else
         trace s' = trace s @
           [Video_capture url,
            Open_file (json_path env self cid) ''w'',
            Json_dump (json_path env self cid) (metadata cc cn ci url cid ''UNCONNECTED''),
            Http_put (global_rtsp_backend_url g @ ''/cameras/import'')
              (JObj [(''status'', JStr ''UNCONNECTED''), (''url'', url), (''labels'', ls)])] @ rest \<and>
         files s' = (files s)(json_path env self cid \<mapsto>
           Document (metadata cc cn ci url cid ''UNCONNECTED'')))"
proof -
  let ?s1 = "s\<lparr>world := snd (video_capture_read env url (world s)),
                trace := trace s @ [Video_capture url]\<rparr>"
  let ?m = "if is_connected then persist_open env g self camera fr
            else persist_unconnected env g self camera"
  have run: "client_health_check env g self camera s = catch ?m print_exception ?s1"
    using assms(1,8) by (rule client_health_check_after_capture)
  show ?thesis
  proof (cases is_connected)
    case True
    have p: "post (persist_open env g self camera fr) ?s1 (\<lambda>r s'.
      (\<exists>x. r = Inr x) \<and>
      (\<exists>rest. list_all is_print rest \<and>
         trace s' = trace ?s1 @
           [Imwrite (img_path env self cid) fr,
            Open_file (img_path env self cid) ''rb'',
            Open_file (json_path env self cid) ''w'',
            Json_dump (json_path env self cid) (metadata cc cn ci url cid ''OPEN''),
            Http_put (global_rtsp_backend_url g @ ''/cameras/import'')
              (JObj [(''status'', JStr ''OPEN''), (''url'', url),
                     (''base64ImageData'', JStr (b64encode env (Image fr)))])] @ rest) \<and>
      files s' = (files ?s1)(img_path env self cid \<mapsto> Image fr,
                   json_path env self cid \<mapsto> Document (metadata cc cn ci url cid ''OPEN'')))"
      using assms(1-5,7) by (rule persist_open_post)
    then obtain x where x: "fst (persist_open env g self camera fr ?s1) = Inr x"
      unfolding post_def by blast
    with True have "client_health_check env g self camera s = persist_open env g self camera fr ?s1"
      by (simp add: run catch_returns)
    with p True x show ?thesis
      unfolding post_def
      by (intro exI [of _ x] exI [of _ "snd (persist_open env g self camera fr ?s1)"])
         (auto simp: prod_eq_iff)
  next
    case False
    have p: "post (persist_unconnected env g self camera) ?s1 (\<lambda>r s'.
      (\<exists>x. r = Inr x) \<and>
      (\<exists>rest. list_all is_print rest \<and>
         trace s' = trace ?s1 @
           [Open_file (json_path env self cid) ''w'',
            Json_dump (json_path env self cid) (metadata cc cn ci url cid ''UNCONNECTED''),
            Http_put (global_rtsp_backend_url g @ ''/cameras/import'')
              (JObj [(''status'', JStr ''UNCONNECTED''), (''url'', url), (''labels'', ls)])] @ rest) \<and>
      files s' = (files ?s1)(json_path env self cid \<mapsto>
                   Document (metadata cc cn ci url cid ''UNCONNECTED'')))"
      using assms(1-7) by (rule persist_unconnected_post)
    then obtain x where x: "fst (persist_unconnected env g self camera ?s1) = Inr x"
      unfolding post_def by blast
    with False have "client_health_check env g self camera s =
        persist_unconnected env g self camera ?s1"
      by (simp add: run catch_returns)
    with p False x show ?thesis
      unfolding post_def
      by (intro exI [of _ x] exI [of _ "snd (persist_unconnected env g self camera ?s1)"])
         (auto simp: prod_eq_iff)
  qed
qed

text \<open>
  Claim C1. Take a camera record with the fields of the data model and an
  environment that carries out the file operations. If the probe reads a frame,
  the image file is written with that frame, the metadata file holds the status
  \<open>OPEN\<close> and the report sent to the inventory has the status \<open>OPEN\<close>. If the
  probe reads no frame, no image is written (the image path is as it was and
  \<^verbatim>\<open>cv2.imwrite\<close> is not called), the metadata file is written with the status
  \<open>UNCONNECTED\<close> and the report has the status \<open>UNCONNECTED\<close>.
\<close>

theorem frame_decides_status:
  assumes "getitem camera ''rtspUrl'' = Inr url"
    and "getitem camera ''cameraId'' = Inr cid"
    and "getitem camera ''countryCode'' = Inr cc"
    and "getitem camera ''countryName'' = Inr cn"
    and "getitem camera ''city'' = Inr ci"
    and "getitem camera ''labels'' = Inr ls"
    and "disk_ok env"
    and "fst (video_capture_read env url (world s)) = Inr (is_connected, fr)"
  shows "\<exists>r s' rest. client_health_check env g self camera s = (Inr r, s') \<and>
      list_all is_print rest \<and>
      (if is_connected then
         trace s' = trace s @
           [Video_capture url,
            Imwrite (img_path env self cid) fr,
            Open_file (img_path env self cid) ''rb'',
            Open_file (json_path env self cid) ''w'',
            Json_dump (json_path env self cid) (metadata cc cn ci url cid ''OPEN''),
            Http_put (global_rtsp_backend_url g @ ''/cameras/import'')
              (JObj [(''status'', JStr ''OPEN''), (''url'', url),
                     (''base64ImageData'', JStr (b64encode env (Image fr)))])] @ rest \<and>
         files s' (img_path env self cid) = Some (Image fr) \<and>
         files s' (json_path env self cid) = Some (Document (metadata cc cn ci url cid ''OPEN''))
       else
         trace s' = trace s @
           [Video_capture url,
            Open_file (json_path env self cid) ''w'',
            Json_dump (json_path env self cid) (metadata cc cn ci url cid ''UNCONNECTED''),
            Http_put (global_rtsp_backend_url g @ ''/cameras/import'')
              (JObj [(''status'', JStr ''UNCONNECTED''), (''url'', url), (''labels'', ls)])] @ rest \<and>
         files s' (img_path env self cid) = files s (img_path env self cid) \<and>
         files s' (json_path env self cid) =
           Some (Document (metadata cc cn ci url cid ''UNCONNECTED'')))"
proof -
  obtain r s' rest where run: "client_health_check env g self camera s = (Inr r, s')"
      "list_all is_print rest"
      "if is_connected then
         trace s' = trace s @
           [Video_capture url,
            Imwrite (img_path env self cid) fr,
            Open_file (img_path env self cid) ''rb'',
            Open_file (json_path env self cid) ''w'',
            Json_dump (json_path env self cid) (metadata cc cn ci url cid ''OPEN''),
            Http_put (global_rtsp_backend_url g @ ''/cameras/import'')
              (JObj [(''status'', JStr ''OPEN''), (''url'', url),
                     (''base64ImageData'', JStr (b64encode env (Image fr)))])] @ rest \<and>
         files s' = (files s)(img_path env self cid \<mapsto> Image fr,
           json_path env self cid \<mapsto> Document (metadata cc cn ci url cid ''OPEN''))
       else
         trace s' = trace s @
           [Video_capture url,
            Open_file (json_path env self cid) ''w'',
            Json_dump (json_path env self cid) (metadata cc cn ci url cid ''UNCONNECTED''),
            Http_put (global_rtsp_backend_url g @ ''/cameras/import'')
              (JObj [(''status'', JStr ''UNCONNECTED''), (''url'', url), (''labels'', ls)])] @ rest \<and>
         files s' = (files s)(json_path env self cid \<mapsto>
           Document (metadata cc cn ci url cid ''UNCONNECTED''))"
    using client_health_check_run [OF assms, of g self] by blast
  show ?thesis
  proof (cases is_connected)
    case True
    with run show ?thesis
      by (intro exI [of _ r] exI [of _ s'] exI [of _ rest]) simp
  next
    case False
    with run show ?thesis
      by (intro exI [of _ r] exI [of _ s'] exI [of _ rest]) simp
  qed
qed

theorem frame_decides_status_witness:
  "files (snd (client_health_check demo_env demo_globals demo_client
            (demo_camera 1 ''rtsp://a'') demo_state)) ''out/1.jpg'' = Some (Image [7]) \<and>
   files (snd (client_health_check demo_env demo_globals demo_client
            (demo_camera 1 ''rtsp://a'') demo_state)) ''out/1.json'' =
     Some (Document (metadata (JStr ''NL'') (JStr ''Netherlands'') (JStr ''Delft'')
             (JStr ''rtsp://a'') (JNum 1) ''OPEN'')) \<and>
   files (snd (client_health_check demo_env demo_globals demo_client
            (demo_camera 3 ''rtsp://c'') demo_state)) ''out/3.jpg'' = None \<and>
   files (snd (client_health_check demo_env demo_globals demo_client
            (demo_camera 3 ''rtsp://c'') demo_state)) ''out/3.json'' =
     Some (Document (metadata (JStr ''NL'') (JStr ''Netherlands'') (JStr ''Delft'')
             (JStr ''rtsp://c'') (JNum 3) ''UNCONNECTED''))"
proof -
  have d: "disk_ok demo_env"
    by (simp add: disk_ok_def demo_defs)
  have a: "fst (video_capture_read demo_env (JStr ''rtsp://a'') (world demo_state)) = Inr (True, [7])"
    by (simp add: demo_defs)
  have c: "fst (video_capture_read demo_env (JStr ''rtsp://c'') (world demo_state)) = Inr (False, [])"
    by (simp add: demo_defs)
  have 1: "img_path demo_env demo_client (JNum 1) = ''out/1.jpg''"
    "json_path demo_env demo_client (JNum 1) = ''out/1.json''"
    "img_path demo_env demo_client (JNum 3) = ''out/3.jpg''"
    "json_path demo_env demo_client (JNum 3) = ''out/3.json''"
    by (simp_all add: img_path_def json_path_def demo_defs)
  show ?thesis
    using frame_decides_status [of "demo_camera 1 ''rtsp://a''" "JStr ''rtsp://a''" "JNum 1"
        "JStr ''NL''" "JStr ''Netherlands''" "JStr ''Delft''" "JArr []" demo_env demo_state
        True "[7]" demo_globals demo_client, OF _ _ _ _ _ _ d a]
      frame_decides_status [of "demo_camera 3 ''rtsp://c''" "JStr ''rtsp://c''" "JNum 3"
        "JStr ''NL''" "JStr ''Netherlands''" "JStr ''Delft''" "JArr []" demo_env demo_state
        False "[]" demo_globals demo_client, OF _ _ _ _ _ _ d c]
    by (auto simp: 1 demo_camera_def demo_state_def)
qed

text \<open>
  Claim C3, as stated, fails: when the capture raises, the exception is caught,
  but no status \<open>UNCONNECTED\<close> results; no metadata file is written and no report
  is sent.
\<close>

theorem capture_exception_counterexample:
  "fst (client_health_check raising_env demo_globals demo_client
          (demo_camera 1 ''rtsp://a'') demo_state) = Inr JNull \<and>
   trace (snd (client_health_check raising_env demo_globals demo_client
          (demo_camera 1 ''rtsp://a'') demo_state)) =
     [Video_capture (JStr ''rtsp://a''), Print (Msg_exception Cv2Error)] \<and>
   files (snd (client_health_check raising_env demo_globals demo_client
          (demo_camera 1 ''rtsp://a'') demo_state)) ''out/1.json'' = None"
  by (simp add: client_health_check_def demo_defs run_defs)

text \<open>
  Claim C3, as amended. An exception raised by the connection or the read is
  caught and printed, and nothing else happens: the probe returns \<^verbatim>\<open>None\<close>, no
  status is written, no file is touched and no report is sent. No error leaves
  the probe.
\<close>

theorem capture_exception_is_caught:
  assumes "getitem camera ''rtspUrl'' = Inr url"
    and "fst (video_capture_read env url (world s)) = Inl e"
  shows "client_health_check env g self camera s =
           (Inr JNull, s\<lparr>world := snd (video_capture_read env url (world s)),
                          trace := trace s @ [Video_capture url, Print (Msg_exception e)]\<rparr>)"
proof -
  have "post (client_health_check env g self camera) s (\<lambda>r s'. r = Inr JNull \<and>
          s' = s\<lparr>world := snd (video_capture_read env url (world s)),
                  trace := trace s @ [Video_capture url, Print (Msg_exception e)]\<rparr>)"
    using assms by (simp add: client_health_check_def op_defs)
  then show ?thesis
    by (simp add: post_def prod_eq_iff)
qed

theorem capture_exception_is_caught_witness:
  "client_health_check raising_env demo_globals demo_client (demo_camera 1 ''rtsp://a'') demo_state =
     (Inr JNull, demo_state\<lparr>world := 1,
        trace := [Video_capture (JStr ''rtsp://a''), Print (Msg_exception Cv2Error)]\<rparr>)"
  using capture_exception_is_caught [of "demo_camera 1 ''rtsp://a''" "JStr ''rtsp://a''" raising_env
      demo_state Cv2Error demo_globals demo_client]
  by (simp add: demo_defs)

section \<open>The listing\<close>

text \<open>
  Claim C2 at an unreachable inventory: \<open>get_all_camera_ids\<close> does not raise, but
  what it returns is \<^verbatim>\<open>None\<close>, not an empty sequence; the cycle prints that no
  cameras were downloaded and then raises TypeError at \<^verbatim>\<open>enumerate(camera_ids)\<close>.
  In daemon mode the exception ends \<open>main\<close> in its first cycle.
\<close>

theorem listing_failure_aborts_cycle:
  "fst (get_all_camera_ids offline_env demo_client demo_state) = Inr JNull \<and>
   fst (download_cameras_and_do_health_check offline_env demo_globals demo_client (JNum 50)
          demo_state) = Inl TypeError \<and>
   trace (snd (download_cameras_and_do_health_check offline_env demo_globals demo_client (JNum 50)
          demo_state)) =
     [Print Msg_downloading, Http_get ''http://h/cameras/ids'',
      Print (Msg_exception ConnectionError), Print Msg_no_cameras_downloaded] \<and>
   fst (main 2 offline_env demo_globals (demo_options\<lparr>opt_daemon := True\<rparr>) demo_state) =
     Some (Inl TypeError)"
  by (simp add: main_def numeral_2_eq_2 download_cameras_and_do_health_check_def
      get_all_camera_ids_def demo_options_def demo_defs run_defs)

section \<open>What a program appends to the trace\<close>

lemma extends_by_refl [simp]: "extends_by P s s"
  by (simp add: extends_by_def)

lemma extends_by_trans: "extends_by P s s' \<Longrightarrow> extends_by P s' s'' \<Longrightarrow> extends_by P s s''"
  unfolding extends_by_def by (metis append.assoc list_all_append)

lemma extends_by_mono: "extends_by P s s' \<Longrightarrow> (\<And>ev. P ev \<Longrightarrow> P' ev) \<Longrightarrow> extends_by P' s s'"
  unfolding extends_by_def list_all_iff by blast

lemma emits_only_ret: "emits_only P (ret x)"
  by (simp add: emits_only_def ret_def)

lemma emits_only_raise: "emits_only P (raise e)"
  by (simp add: emits_only_def raise_def)

lemma emits_only_lift: "emits_only P (lift r)"
  by (simp add: emits_only_def lift_def)

lemma emits_only_set_file: "emits_only P (set_file path d)"
  by (simp add: emits_only_def set_file_def extends_by_def)

lemma emits_only_emit: "P ev \<Longrightarrow> emits_only P (emit ev)"
  by (simp add: emits_only_def emit_def extends_by_def)

lemma emits_only_extern: "P ev \<Longrightarrow> emits_only P (extern ev f)"
  by (simp add: emits_only_def extern_def extends_by_def split: prod.splits)

lemma emits_only_bnd:
  assumes "emits_only P m" and "\<And>x. emits_only P (f x)"
  shows "emits_only P (bnd m f)"
  unfolding emits_only_def
proof
  fix s
  obtain r s' where m: "m s = (r, s')" by (cases "m s")
  have 1: "extends_by P s s'"
    using assms(1) m unfolding emits_only_def by (metis snd_conv)
  show "extends_by P s (snd (bnd m f s))"
  proof (cases r)
    case (Inl e)
    with m 1 show ?thesis by (simp add: bnd_def)
  next
    case (Inr x)
    have "extends_by P s' (snd (f x s'))"
      using assms(2) unfolding emits_only_def by blast
    with m 1 Inr show ?thesis
      by (simp add: bnd_def) (rule extends_by_trans)
  qed
qed

lemma emits_only_bnd_lift:
  assumes "\<And>x. r = Inr x \<Longrightarrow> emits_only P (f x)"
  shows "emits_only P (bnd (lift r) f)"
  using assms unfolding emits_only_def
  by (cases r) (simp_all add: bnd_def lift_def)

lemma emits_only_catch:
  assumes "emits_only P m" and "\<And>e. emits_only P (h e)"
  shows "emits_only P (catch m h)"
  unfolding emits_only_def
proof
  fix s
  obtain r s' where m: "m s = (r, s')" by (cases "m s")
  have 1: "extends_by P s s'"
    using assms(1) m unfolding emits_only_def by (metis snd_conv)
  show "extends_by P s (snd (catch m h s))"
  proof (cases r)
    case (Inr x)
    with m 1 show ?thesis by (simp add: catch_def)
  next
    case (Inl e)
    have "extends_by P s' (snd (h e s'))"
      using assms(2) unfolding emits_only_def by blast
    with m 1 Inl show ?thesis
      by (simp add: catch_def) (rule extends_by_trans)
  qed
qed

lemma emits_only_if:
  "(b \<Longrightarrow> emits_only P m1) \<Longrightarrow> (\<not> b \<Longrightarrow> emits_only P m2) \<Longrightarrow>
   emits_only P (if b then m1 else m2)"
  by simp

lemma emits_only_case_prod:
  "(\<And>a b. emits_only P (f a b)) \<Longrightarrow> emits_only P (case p of (a, b) \<Rightarrow> f a b)"
  by (cases p) simp

lemma emits_only_print_failure: "P (Print (Msg_status_code (status_code resp))) \<Longrightarrow>
  P (Print (Msg_text (resp_text resp))) \<Longrightarrow> emits_only P (print_failure resp)"
  unfolding print_failure_def
  by (intro emits_only_bnd emits_only_emit emits_only_ret)

lemma emits_only_print_exception: "P (Print (Msg_exception e)) \<Longrightarrow> emits_only P (print_exception e)"
  unfolding print_exception_def
  by (intro emits_only_bnd emits_only_emit emits_only_ret)

lemma emits_only_read_binary: "P (Open_file path ''rb'') \<Longrightarrow> emits_only P (read_binary env path)"
  unfolding read_binary_def
  by (intro emits_only_bnd emits_only_extern)
     (simp_all add: emits_only_def split: option.splits)

lemma emits_only_imwrite: "P (Imwrite path fr) \<Longrightarrow> emits_only P (imwrite env path fr)"
  unfolding imwrite_def
  by (intro emits_only_bnd emits_only_extern emits_only_if emits_only_set_file emits_only_ret)

lemma emits_only_open_write: "P (Open_file path ''w'') \<Longrightarrow> emits_only P (open_write env path)"
  unfolding open_write_def
  by (intro emits_only_bnd emits_only_extern emits_only_set_file)

lemma emits_only_json_dump: "P (Json_dump path v) \<Longrightarrow> emits_only P (json_dump env path v)"
  unfolding json_dump_def
  by (intro emits_only_bnd emits_only_extern emits_only_set_file)

lemmas emits_only_rules = emits_only_bnd_lift emits_only_bnd emits_only_catch emits_only_if
  emits_only_case_prod emits_only_ret emits_only_raise emits_only_lift emits_only_set_file
  emits_only_emit emits_only_extern emits_only_print_failure emits_only_print_exception
  emits_only_read_binary emits_only_imwrite emits_only_open_write emits_only_json_dump

section \<open>The statuses written\<close>

lemma camera_to_save_status:
  "camera_to_save camera (Inr (JStr st)) = Inr doc \<Longrightarrow> getitem doc ''status'' = Inr (JStr st)"
  by (auto simp: camera_to_save_def bnd_e_def split: sum.splits)

lemma bnd_lift_Inr: "bnd (lift (Inr x)) f = f x"
  by (rule ext) (simp add: bnd_def lift_def)

lemma put_statuses:
  assumes "map_of camera ''status'' = Some (JStr st)" and "st \<in> set S"
  shows "emits_only (writes_status_in S)
     (catch (bnd (extern (Http_put url (JObj camera)) (requests_put env url (JObj camera)))
               (\<lambda>resp. if ok resp then lift (resp_json resp) else print_failure resp))
        print_exception)"
  using assms
  by (intro emits_only_rules) (auto simp: list_ex_iff)

lemma update_camera_statuses:
  assumes "map_of camera ''status'' = Some (JStr st)" and "st \<in> set S"
  shows "emits_only (writes_status_in S) (update_camera env g self camera)"
proof -
  have put: "emits_only (writes_status_in S)
     (catch (bnd (extern (Http_put (global_rtsp_backend_url g @ ''/cameras/import'') (JObj c))
                  (requests_put env (global_rtsp_backend_url g @ ''/cameras/import'') (JObj c)))
               (\<lambda>resp. if ok resp then lift (resp_json resp) else print_failure resp))
        print_exception)" if "map_of c ''status'' = Some (JStr st)" for c
    using that assms(2) by (rule put_statuses)
  show ?thesis
  proof (cases "map_of camera ''rtspUrl''")
    case None
    with put [OF assms(1)] show ?thesis
      by (simp add: update_camera_def Let_def bnd_ret_left)
  next
    case (Some v)
    show ?thesis
    proof (cases "map_of camera ''url''")
      case None
      have "map_of (camera @ [(''url'', v)]) ''status'' = Some (JStr st)"
        using assms(1) by (simp add: map_add_def)
      from put [OF this] Some None show ?thesis
        by (simp add: update_camera_def Let_def bnd_lift_Inr bnd_ret_left)
    next
      case (Some u)
      with put [OF assms(1)] show ?thesis
        by (simp add: update_camera_def Let_def bnd_ret_left)
    qed
  qed
qed

lemma persist_open_statuses:
  "emits_only (writes_status_in [''OPEN'', ''UNCONNECTED'']) (persist_open env g self camera fr)"
  unfolding persist_open_def Let_def
  by (intro emits_only_rules update_camera_statuses [where st = "''OPEN''"])
     (auto dest: camera_to_save_status)

lemma persist_unconnected_statuses:
  "emits_only (writes_status_in [''OPEN'', ''UNCONNECTED'']) (persist_unconnected env g self camera)"
  unfolding persist_unconnected_def Let_def
  by (intro emits_only_rules update_camera_statuses [where st = "''UNCONNECTED''"])
     (auto dest: camera_to_save_status)

lemma client_health_check_statuses:
  "emits_only (writes_status_in [''OPEN'', ''UNCONNECTED'']) (client_health_check env g self camera)"
  unfolding client_health_check_def
  by (intro emits_only_rules persist_open_statuses persist_unconnected_statuses) simp_all

lemma get_camera_gets: "emits_only is_get_or_print (get_camera env self camera_id camera_rtsp_url)"
  unfolding get_camera_def Let_def
  by (intro emits_only_rules) simp_all

lemma get_all_camera_ids_gets: "emits_only is_get_or_print (get_all_camera_ids env self)"
  unfolding get_all_camera_ids_def Let_def
  by (intro emits_only_rules) simp_all

lemma emits_only_mono: "emits_only P m \<Longrightarrow> (\<And>ev. P ev \<Longrightarrow> P' ev) \<Longrightarrow> emits_only P' m"
  unfolding emits_only_def using extends_by_mono by blast

lemma gets_write_no_status: "is_get_or_print ev \<Longrightarrow> writes_status_in S ev"
  by (cases ev) simp_all

lemma health_check_loop_statuses:
  "emits_only (writes_status_in [''OPEN'', ''UNCONNECTED'']) (health_check_loop env g n i cameras)"
  by (induction cameras arbitrary: i)
     (auto intro!: emits_only_rules client_health_check_statuses)

lemma fetch_loop_gets:
  "emits_only is_get_or_print (fetch_loop env client n i ids cameras)"
  by (induction ids arbitrary: i cameras)
     (auto intro!: emits_only_rules get_camera_gets)

lemma cycle_statuses:
  "emits_only (writes_status_in [''OPEN'', ''UNCONNECTED''])
     (download_cameras_and_do_health_check env g client threads_limit)"
  unfolding download_cameras_and_do_health_check_def health_check_def
  by (intro emits_only_rules health_check_loop_statuses
        emits_only_mono [OF get_all_camera_ids_gets] emits_only_mono [OF fetch_loop_gets]
        gets_write_no_status)
     simp_all


lemma py_sleep_statuses: "emits_only (writes_status_in S) (py_sleep t)"
  unfolding py_sleep_def by (intro emits_only_rules) simp

lemma daemon_loop_statuses:
  "extends_by (writes_status_in [''OPEN'', ''UNCONNECTED'']) s (snd (daemon_loop fuel env g opts s))"
proof (induction fuel arbitrary: s)
  case 0
  show ?case by simp
next
  case (Suc fuel)
  let ?m = "bnd (download_cameras_and_do_health_check env g (global_client g) (opt_threads opts))
             (\<lambda>_. bnd (emit (Print (Msg_sleeping (opt_sleep_timer opts)))) (\<lambda>_.
                  py_sleep (opt_sleep_timer opts)))"
  have "emits_only (writes_status_in [''OPEN'', ''UNCONNECTED'']) ?m"
    by (intro emits_only_bnd cycle_statuses emits_only_emit py_sleep_statuses) simp
  then have 1: "extends_by (writes_status_in [''OPEN'', ''UNCONNECTED'']) s (snd (?m s))"
    by (simp add: emits_only_def)
  obtain r s' where m: "?m s = (r, s')" by (cases "?m s")
  show ?case
  proof (cases r)
    case (Inl e)
    with m 1 show ?thesis by simp
  next
    case (Inr x)
    with m 1 Suc.IH [of s'] show ?thesis
      by simp (rule extends_by_trans)
  qed
qed

lemma main_statuses:
  "extends_by (writes_status_in [''OPEN'', ''UNCONNECTED'']) s (snd (main fuel env g opts s))"
proof -
  have 1: "extends_by (writes_status_in [''OPEN'', ''UNCONNECTED'']) s
             (snd (download_cameras_and_do_health_check env g (global_client g) (opt_threads opts) s))"
    using cycle_statuses [of env g "global_client g" "opt_threads opts"]
    by (simp add: emits_only_def)
  have 2: "extends_by (writes_status_in [''OPEN'', ''UNCONNECTED'']) s
             (s\<lparr>trace := trace s @ [Print Msg_starting_daemon]\<rparr>)"
    by (simp add: extends_by_def)
  have 3: "extends_by (writes_status_in [''OPEN'', ''UNCONNECTED'']) s
             (snd (daemon_loop fuel env g opts (s\<lparr>trace := trace s @ [Print Msg_starting_daemon]\<rparr>)))"
    using 2 daemon_loop_statuses by (rule extends_by_trans)
  show ?thesis
    using 1 3 by (simp add: main_def emit_def split_beta)
qed

text \<open>
  Claim C6. Every report and every metadata document that the program writes, in
  a single cycle or in any number of cycles of the daemon, carries the status
  \<open>OPEN\<close> or \<open>UNCONNECTED\<close>, and so does every one that the probe writes, for any
  input; both are among the four values of \<open>camera_statuses\<close>. The probe never
  writes \<open>UNAUTHORIZED\<close> or \<open>NOT_FOUND\<close>.
\<close>

theorem statuses_written:
  "extends_by (writes_status_in [''OPEN'', ''UNCONNECTED'']) s (snd (main fuel env g opts s)) \<and>
   extends_by (writes_status_in [''OPEN'', ''UNCONNECTED'']) s
     (snd (client_health_check env g self camera s)) \<and>
   set [''OPEN'', ''UNCONNECTED''] \<subseteq> set camera_statuses"
proof (intro conjI)
  show "extends_by (writes_status_in [''OPEN'', ''UNCONNECTED'']) s (snd (main fuel env g opts s))"
    by (rule main_statuses)
  show "extends_by (writes_status_in [''OPEN'', ''UNCONNECTED'']) s
     (snd (client_health_check env g self camera s))"
    using client_health_check_statuses [of env g self camera] by (simp add: emits_only_def)
  show "set [''OPEN'', ''UNCONNECTED''] \<subseteq> set camera_statuses"
    by (simp add: camera_statuses_def)
qed

lemma demo_cycle_trace:
  "trace (snd (main 0 demo_env demo_globals demo_options demo_state)) =
     [Print Msg_downloading,
      Http_get ''http://h/cameras/ids'',
      Print (Msg_discovered 3),
      Print (Msg_asking 1 3), Http_get ''http://h/cameras?id=1'',
      Print (Msg_asking 2 3), Http_get ''http://h/cameras?id=2'',
      Print (Msg_status_code 404), Print (Msg_text ''no''),
      Print (Msg_asking 3 3), Http_get ''http://h/cameras?id=3'',
      Print (Msg_found 2),
      Video_capture (JStr ''rtsp://a''),
      Imwrite ''out/1.jpg'' [7],
      Open_file ''out/1.jpg'' ''rb'',
      Open_file ''out/1.json'' ''w'',
      Json_dump ''out/1.json'' (metadata (JStr ''NL'') (JStr ''Netherlands'') (JStr ''Delft'')
             (JStr ''rtsp://a'') (JNum 1) ''OPEN''),
      Http_put ''http://h/cameras/import''
        (JObj [(''status'', JStr ''OPEN''), (''url'', JStr ''rtsp://a''),
               (''base64ImageData'', JStr ''Bw=='')]),
      Print (Msg_completed (JNum 1) (JStr ''rtsp://a'') (JStr ''OPEN'') 1 2),
      Video_capture (JStr ''rtsp://c''),
      Open_file ''out/3.json'' ''w'',
      Json_dump ''out/3.json'' (metadata (JStr ''NL'') (JStr ''Netherlands'') (JStr ''Delft'')
             (JStr ''rtsp://c'') (JNum 3) ''UNCONNECTED''),
      Http_put ''http://h/cameras/import''
        (JObj [(''status'', JStr ''UNCONNECTED''), (''url'', JStr ''rtsp://c''),
               (''labels'', JArr [])]),
      Print (Msg_completed (JNum 3) (JStr ''rtsp://c'') (JStr ''OPEN'') 2 2)]"
  by (simp add: main_def download_cameras_and_do_health_check_def get_all_camera_ids_def
      get_camera_def health_check_def client_health_check_def persist_open_def
      persist_unconnected_def update_camera_def camera_to_save_def report_line_def
      imwrite_def read_binary_def open_write_def json_dump_def img_path_def json_path_def
      metadata_def demo_options_def demo_defs run_defs)


theorem statuses_written_witness:
  "list_all (writes_status_in [''OPEN'', ''UNCONNECTED''])
     (trace (snd (main 0 demo_env demo_globals demo_options demo_state))) \<and>
   Json_dump ''out/3.json'' (metadata (JStr ''NL'') (JStr ''Netherlands'') (JStr ''Delft'')
             (JStr ''rtsp://c'') (JNum 3) ''UNCONNECTED'')
     \<in> set (trace (snd (main 0 demo_env demo_globals demo_options demo_state)))"
  using statuses_written [of demo_state 0 demo_env demo_globals demo_options]
  by (simp add: extends_by_def demo_cycle_trace) (simp add: demo_state_def)

section \<open>One camera's failure and the next camera\<close>

lemma update_camera_no_capture:
  "emits_only (\<lambda>ev. \<not> is_capture ev) (update_camera env g self camera)"
  unfolding update_camera_def Let_def
  by (intro emits_only_rules) simp_all

lemma persist_open_no_capture:
  "emits_only (\<lambda>ev. \<not> is_capture ev) (persist_open env g self camera fr)"
  unfolding persist_open_def Let_def
  by (intro emits_only_rules update_camera_no_capture) simp_all

lemma persist_unconnected_no_capture:
  "emits_only (\<lambda>ev. \<not> is_capture ev) (persist_unconnected env g self camera)"
  unfolding persist_unconnected_def Let_def
  by (intro emits_only_rules update_camera_no_capture) simp_all

lemma captured_append [simp]: "captured (xs @ ys) = captured xs @ captured ys"
  by (induction xs rule: captured.induct) simp_all

lemma captured_none: "list_all (\<lambda>ev. \<not> is_capture ev) evs \<Longrightarrow> captured evs = []"
  by (induction evs rule: captured.induct) simp_all

lemma catch_bnd_extern:
  "catch (bnd (extern ev f) k) h s =
     catch (bnd (lift (fst (f (world s)))) k) h
       (s\<lparr>world := snd (f (world s)), trace := trace s @ [ev]\<rparr>)"
proof (cases "f (world s)")
  case (Pair r w')
  then show ?thesis
    by (cases r) (simp_all add: catch_def bnd_def extern_def lift_def)
qed

lemma client_health_check_contained:
  assumes "getitem camera ''rtspUrl'' = Inr url"
  shows "(\<exists>x. fst (client_health_check env g self camera s) = Inr x) \<and>
         (\<exists>evs. trace (snd (client_health_check env g self camera s)) = trace s @ evs \<and>
                captured evs = [url])"
proof -
  let ?f = "video_capture_read env url (world s)"
  let ?s1 = "s\<lparr>world := snd ?f, trace := trace s @ [Video_capture url]\<rparr>"
  let ?k = "\<lambda>p. if fst p then persist_open env g self camera (snd p)
                 else persist_unconnected env g self camera"
  let ?rest = "\<lambda>r. catch (bnd (lift r) ?k) print_exception"
  have run: "client_health_check env g self camera s = ?rest (fst ?f) ?s1"
    using assms
    by (simp add: client_health_check_def bnd_lift_Inr catch_bnd_extern case_prod_unfold)
  have "emits_only (\<lambda>ev. \<not> is_capture ev) (?rest (fst ?f))"
    by (intro emits_only_rules persist_open_no_capture persist_unconnected_no_capture) simp_all
  then obtain evs where evs: "trace (snd (?rest (fst ?f) ?s1)) = trace ?s1 @ evs"
      "list_all (\<lambda>ev. \<not> is_capture ev) evs"
    unfolding emits_only_def extends_by_def by blast
  have "\<exists>x. fst (?rest (fst ?f) ?s1) = Inr x"
    by (cases "bnd (lift (fst ?f)) ?k ?s1")
       (auto simp: catch_def print_exception_def bnd_def emit_def ret_def split: sum.splits)
  moreover have "trace (snd (?rest (fst ?f) ?s1)) = trace s @ (Video_capture url # evs) \<and>
      captured (Video_capture url # evs) = [url]"
    using evs by (simp add: captured_none)
  ultimately show ?thesis
    unfolding run by blast
qed

lemma health_check_loop_contained:
  assumes "list_all (\<lambda>c. has_keys c [''rtspUrl'', ''cameraId'', ''status'']) cameras"
  shows "fst (health_check_loop env g n i cameras s) = Inr () \<and>
         (\<exists>evs. trace (snd (health_check_loop env g n i cameras s)) = trace s @ evs \<and>
                captured evs = map rtsp_url_of cameras)"
  using assms
proof (induction cameras arbitrary: i s)
  case Nil
  show ?case by (simp add: ret_def)
next
  case (Cons camera cameras)
  from Cons.prems obtain kvs url cid st where camera: "camera = JObj kvs"
      "map_of kvs ''rtspUrl'' = Some url" "map_of kvs ''cameraId'' = Some cid"
      "map_of kvs ''status'' = Some st"
    by (cases camera) auto
  then have url: "getitem camera ''rtspUrl'' = Inr url" by simp
  obtain r s1 where chc: "client_health_check env g (global_client g) camera s = (r, s1)"
    by (cases "client_health_check env g (global_client g) camera s")
  from client_health_check_contained [OF url, of env g "global_client g" s] chc
  obtain x evs where x: "r = Inr x" and evs: "trace s1 = trace s @ evs" "captured evs = [url]"
    by auto
  obtain line where line: "report_line camera x i n = Inr line"
    using camera by (simp add: report_line_def bnd_e_def)
  let ?s2 = "s1\<lparr>trace := trace s1 @ [Print line]\<rparr>"
  have step: "health_check_loop env g n i (camera # cameras) s =
              health_check_loop env g n (Suc i) cameras ?s2"
    using chc x line by (simp add: bnd_def lift_def emit_def)
  from Cons.prems have "list_all (\<lambda>c. has_keys c [''rtspUrl'', ''cameraId'', ''status'']) cameras"
    by simp
  from Cons.IH [OF this, of "Suc i" ?s2]
  obtain evs' where rest: "fst (health_check_loop env g n (Suc i) cameras ?s2) = Inr ()"
      "trace (snd (health_check_loop env g n (Suc i) cameras ?s2)) = trace ?s2 @ evs'"
      "captured evs' = map rtsp_url_of cameras"
    by blast
  have "trace (snd (health_check_loop env g n (Suc i) cameras ?s2)) =
          trace s @ (evs @ Print line # evs') \<and>
        captured (evs @ Print line # evs') = map rtsp_url_of (camera # cameras)"
    using rest evs url by (simp add: rtsp_url_of_def)
  with rest(1) show ?case
    unfolding step by blast
qed

text \<open>
  What is contained: in a sequence of dicts with the keys that the loop itself
  subscripts (\<open>rtspUrl\<close>, \<open>cameraId\<close>, \<open>status\<close>), whatever the cameras, the disk
  and the inventory do, \<open>health_check\<close> returns normally and every camera of the
  sequence is probed, once and in order.
\<close>

lemma health_check_contained:
  assumes "list_all (\<lambda>c. has_keys c [''rtspUrl'', ''cameraId'', ''status'']) cameras"
  shows "fst (health_check env g cameras s) = Inr () \<and>
         (\<exists>evs. trace (snd (health_check env g cameras s)) = trace s @ evs \<and>
                captured evs = map rtsp_url_of cameras)"
proof -
  let ?s0 = "s\<lparr>trace := trace s @ [Print (Msg_found (length cameras))]\<rparr>"
  have run: "health_check env g cameras s = health_check_loop env g (length cameras) 0 cameras ?s0"
    by (simp add: health_check_def bnd_def emit_def)
  from health_check_loop_contained [OF assms, of env g "length cameras" 0 ?s0]
  obtain evs where rest: "fst (health_check_loop env g (length cameras) 0 cameras ?s0) = Inr ()"
      "trace (snd (health_check_loop env g (length cameras) 0 cameras ?s0)) = trace ?s0 @ evs"
      "captured evs = map rtsp_url_of cameras"
    by blast
  have "trace (snd (health_check_loop env g (length cameras) 0 cameras ?s0)) =
          trace s @ (Print (Msg_found (length cameras)) # evs) \<and>
        captured (Print (Msg_found (length cameras)) # evs) = map rtsp_url_of cameras"
    using rest by simp
  with rest(1) show ?thesis
    unfolding run by blast
qed

text \<open>
  Claim C5 at records that lack a key. The subscript of line 142 and the prints
  of lines 217-223 are outside every \<^verbatim>\<open>try\<close>. A record without \<open>status\<close> is
  probed, persisted and reported, and then the print of its result raises
  KeyError out of \<open>health_check\<close>: camera 3, next in the sequence, is never
  probed. A fetched body without \<open>rtspUrl\<close> raises KeyError at line 142, before
  any probe, out of the cycle and, in daemon mode, out of \<open>main\<close>.
\<close>

theorem malformed_record_aborts_cycle:
  "fst (health_check demo_env demo_globals
         [record_without_status, demo_camera 3 ''rtsp://c''] demo_state) =
     Inl (KeyError ''status'') \<and>
   captured (trace (snd (health_check demo_env demo_globals
         [record_without_status, demo_camera 3 ''rtsp://c''] demo_state))) =
     [JStr ''rtsp://a''] \<and>
   fst (download_cameras_and_do_health_check malformed_env demo_globals demo_client (JNum 50)
         demo_state) = Inl (KeyError ''rtspUrl'') \<and>
   captured (trace (snd (download_cameras_and_do_health_check malformed_env demo_globals
         demo_client (JNum 50) demo_state))) = [] \<and>
   fst (main 2 malformed_env demo_globals (demo_options\<lparr>opt_daemon := True\<rparr>) demo_state) =
     Some (Inl (KeyError ''rtspUrl''))"
  by (simp add: main_def numeral_2_eq_2 download_cameras_and_do_health_check_def
      get_all_camera_ids_def get_camera_def health_check_def client_health_check_def
      persist_open_def persist_unconnected_def update_camera_def camera_to_save_def
      report_line_def imwrite_def read_binary_def open_write_def json_dump_def img_path_def
      json_path_def record_without_status_def error_body_def malformed_env_def
      demo_get_malformed_def demo_options_def demo_defs run_defs)

section \<open>Fetching the listed ids\<close>

lemma get_camera_by_id_post:
  "post (get_camera env self camera_id JNull) s (\<lambda>r s'.
     files s' = files s \<and> extends_by is_get_or_print s s' \<and>
     (\<exists>x. r = Inr x \<and>
        (absent (fst (session_get env (fetch_url env self camera_id) (world s))) \<longrightarrow> \<not> truthy x)))"
  by (auto simp: get_camera_def fetch_url_def op_defs Let_def extends_by_def split: sum.splits)

lemma fetch_loop_returns:
  "\<exists>cams. fst (fetch_loop env client n i ids cameras s) = Inr cams \<and>
          (\<forall>c\<in>set cams. c \<in> set cameras \<or> truthy c)"
proof (induction ids arbitrary: i cameras s)
  case Nil
  show ?case by (simp add: ret_def)
next
  case (Cons camera_id ids)
  let ?s0 = "s\<lparr>trace := trace s @ [Print (Msg_asking (i + 1) n)]\<rparr>"
  obtain r s1 where g: "get_camera env client camera_id JNull ?s0 = (r, s1)"
    by (cases "get_camera env client camera_id JNull ?s0")
  from get_camera_by_id_post [of env client camera_id ?s0] g
  obtain x where x: "r = Inr x" by (auto simp: post_def)
  let ?cams = "if truthy x then cameras @ [x] else cameras"
  have step: "fetch_loop env client n i (camera_id # ids) cameras s =
              fetch_loop env client n (Suc i) ids ?cams s1"
    using g x by (simp add: bnd_def emit_def)
  from Cons.IH [of "Suc i" ?cams s1]
  obtain cams where cams: "fst (fetch_loop env client n (Suc i) ids ?cams s1) = Inr cams"
      "\<forall>c\<in>set cams. c \<in> set ?cams \<or> truthy c"
    by blast
  then have "\<forall>c\<in>set cams. c \<in> set cameras \<or> truthy c"
    by (auto split: if_splits)
  with cams(1) show ?case
    unfolding step by blast
qed

text \<open>
  Claim C4. When the fetch of a listed id has no record to return (the response
  is not a success or its body does not decode; also a transport error or a falsy
  body), the loop goes on to the remaining ids with the same list of cameras:
  all that happened is the request and printing, and no file changed. The loop
  over the ids always returns, and nothing falsy enters the list that it hands
  to \<open>health_check\<close>, the only place where cameras are probed, persisted and
  reported.
\<close>

theorem absent_fetch_is_skipped:
  "(absent (fst (session_get env (fetch_url env client camera_id) (world s))) \<longrightarrow>
      (\<exists>s'. fetch_loop env client n i (camera_id # camera_ids) cameras s =
              fetch_loop env client n (Suc i) camera_ids cameras s' \<and>
            files s' = files s \<and> extends_by is_get_or_print s s')) \<and>
   (\<exists>cams. fst (fetch_loop env client n i ids cameras s) = Inr cams \<and>
           (\<forall>c\<in>set cams. c \<in> set cameras \<or> truthy c))"
proof (intro conjI impI)
  assume a: "absent (fst (session_get env (fetch_url env client camera_id) (world s)))"
  let ?s0 = "s\<lparr>trace := trace s @ [Print (Msg_asking (i + 1) n)]\<rparr>"
  obtain r s1 where g: "get_camera env client camera_id JNull ?s0 = (r, s1)"
    by (cases "get_camera env client camera_id JNull ?s0")
  from get_camera_by_id_post [of env client camera_id ?s0] g a
  obtain x where x: "r = Inr x" "\<not> truthy x" and s1: "files s1 = files s"
      "extends_by is_get_or_print ?s0 s1"
    by (auto simp: post_def)
  have "extends_by is_get_or_print s ?s0"
    by (simp add: extends_by_def)
  then have "extends_by is_get_or_print s s1"
    using s1(2) by (rule extends_by_trans)
  moreover have "fetch_loop env client n i (camera_id # camera_ids) cameras s =
              fetch_loop env client n (Suc i) camera_ids cameras s1"
    using g x by (simp add: bnd_def emit_def)
  ultimately show "\<exists>s'. fetch_loop env client n i (camera_id # camera_ids) cameras s =
              fetch_loop env client n (Suc i) camera_ids cameras s' \<and>
            files s' = files s \<and> extends_by is_get_or_print s s'"
    using s1(1) by blast
next
  show "\<exists>cams. fst (fetch_loop env client n i ids cameras s) = Inr cams \<and>
           (\<forall>c\<in>set cams. c \<in> set cameras \<or> truthy c)"
    by (rule fetch_loop_returns)
qed

theorem absent_fetch_is_skipped_witness:
  "absent (fst (session_get demo_env (fetch_url demo_env demo_client (JNum 2)) (world demo_state))) \<and>
   (\<exists>s'. fetch_loop demo_env demo_client 3 1 [JNum 2, JNum 3] [demo_camera 1 ''rtsp://a''] demo_state =
          fetch_loop demo_env demo_client 3 2 [JNum 3] [demo_camera 1 ''rtsp://a''] s' \<and>
          files s' = files demo_state \<and> extends_by is_get_or_print demo_state s') \<and>
   fst (fetch_loop demo_env demo_client 3 0 [JNum 1, JNum 2, JNum 3] [] demo_state) =
     Inr [demo_camera 1 ''rtsp://a'', demo_camera 3 ''rtsp://c''] \<and>
   captured (trace (snd (main 0 demo_env demo_globals demo_options demo_state))) =
     [JStr ''rtsp://a'', JStr ''rtsp://c'']"
proof -
  have c: "captured (trace (snd (main 0 demo_env demo_globals demo_options demo_state))) =
     [JStr ''rtsp://a'', JStr ''rtsp://c'']"
    by (simp add: demo_cycle_trace)
  have a: "absent (fst (session_get demo_env (fetch_url demo_env demo_client (JNum 2))
             (world demo_state)))"
    by (simp add: fetch_url_def demo_defs ok_def)
  have b: "fst (fetch_loop demo_env demo_client 3 0 [JNum 1, JNum 2, JNum 3] [] demo_state) =
     Inr [demo_camera 1 ''rtsp://a'', demo_camera 3 ''rtsp://c'']"
    by (simp add: get_camera_def demo_defs run_defs)
  show ?thesis
    using a b c absent_fetch_is_skipped [of demo_env demo_client "JNum 2" demo_state 3 1 "[JNum 3]"
        "[demo_camera 1 ''rtsp://a'']"]
    by (simp add: numeral_2_eq_2)
qed


section \<open>Persisting twice\<close>

lemma has_keys_getitem:
  "has_keys c ks \<Longrightarrow> k \<in> set ks \<Longrightarrow> getitem c k = Inr (field_of c k)"
  by (cases c) (auto simp: field_of_def list_all_iff)

lemma client_health_check_files:
  assumes "has_keys c [''rtspUrl'', ''cameraId'', ''countryCode'', ''countryName'', ''city'', ''labels'']"
    and "disk_ok env"
    and "fst (video_capture_read env (field_of c ''rtspUrl'') (world s)) = Inr (is_connected, fr)"
  shows "files (snd (client_health_check env g self c s)) =
     (if is_connected then
        (files s)(img_path env self (field_of c ''cameraId'') \<mapsto> Image fr,
          json_path env self (field_of c ''cameraId'') \<mapsto>
            Document (metadata (field_of c ''countryCode'') (field_of c ''countryName'')
              (field_of c ''city'') (field_of c ''rtspUrl'') (field_of c ''cameraId'') ''OPEN''))
      else
        (files s)(json_path env self (field_of c ''cameraId'') \<mapsto>
            Document (metadata (field_of c ''countryCode'') (field_of c ''countryName'')
              (field_of c ''city'') (field_of c ''rtspUrl'') (field_of c ''cameraId'')
              ''UNCONNECTED'')))"
proof -
  note k = has_keys_getitem [OF assms(1)]
  from client_health_check_run [OF k k k k k k assms(2,3), of g self]
  show ?thesis
    by (auto split: if_splits)
qed

text \<open>
  Claim C7, as stated, fails: camera 1 is probed twice, the first probe reads a
  frame and the second reads none. The metadata file then holds the latest
  result, \<open>UNCONNECTED\<close>, but the image file still holds the frame of the first.
\<close>

theorem stale_image_counterexample:
  "files (snd (client_health_check demo_env demo_globals demo_client (demo_camera 1 ''rtsp://a'')
       (snd (client_health_check demo_env demo_globals demo_client (demo_camera 1 ''rtsp://a'')
          demo_state)))) ''out/1.jpg'' = Some (Image [7]) \<and>
   files (snd (client_health_check demo_env demo_globals demo_client (demo_camera 1 ''rtsp://a'')
       (snd (client_health_check demo_env demo_globals demo_client (demo_camera 1 ''rtsp://a'')
          demo_state)))) ''out/1.json'' =
     Some (Document (metadata (JStr ''NL'') (JStr ''Netherlands'') (JStr ''Delft'')
             (JStr ''rtsp://a'') (JNum 1) ''UNCONNECTED''))"
  by (simp add: client_health_check_def persist_open_def
      persist_unconnected_def update_camera_def camera_to_save_def
      imwrite_def read_binary_def open_write_def json_dump_def img_path_def json_path_def
      metadata_def demo_defs run_defs)

text \<open>
  Claim C7, as amended. After two probes of records with the same \<open>cameraId\<close>
  (their fields present, the file operations carried out), the metadata file of
  that id holds the latest result only; the image file of that id holds the frame
  of the latest probe that read one, and is as it was before if neither did; no
  other file has changed.
\<close>

theorem persisting_twice:
  assumes "has_keys c1 [''rtspUrl'', ''cameraId'', ''countryCode'', ''countryName'', ''city'', ''labels'']"
    and "has_keys c2 [''rtspUrl'', ''cameraId'', ''countryCode'', ''countryName'', ''city'', ''labels'']"
    and "field_of c2 ''cameraId'' = field_of c1 ''cameraId''"
    and "disk_ok env"
    and "s1 = snd (client_health_check env g self c1 s)"
    and "s2 = snd (client_health_check env g self c2 s1)"
    and "fst (video_capture_read env (field_of c1 ''rtspUrl'') (world s)) = Inr (k1, fr1)"
    and "fst (video_capture_read env (field_of c2 ''rtspUrl'') (world s1)) = Inr (k2, fr2)"
  shows "files s2 (json_path env self (field_of c1 ''cameraId'')) =
           Some (Document (metadata (field_of c2 ''countryCode'') (field_of c2 ''countryName'')
              (field_of c2 ''city'') (field_of c2 ''rtspUrl'') (field_of c1 ''cameraId'')
              (if k2 then ''OPEN'' else ''UNCONNECTED''))) \<and>
         files s2 (img_path env self (field_of c1 ''cameraId'')) =
           (if k2 then Some (Image fr2) else if k1 then Some (Image fr1)
            else files s (img_path env self (field_of c1 ''cameraId''))) \<and>
         (\<forall>p. p \<noteq> json_path env self (field_of c1 ''cameraId'') \<and>
              p \<noteq> img_path env self (field_of c1 ''cameraId'') \<longrightarrow> files s2 p = files s p)"
  using client_health_check_files [OF assms(1,4,7), of g self]
    client_health_check_files [OF assms(2,4), of s1 k2 fr2 g self] assms(3,5,6,8)
  by simp


theorem persisting_twice_witness:
  "files (snd (client_health_check demo_env demo_globals demo_client (demo_camera 1 ''rtsp://a'')
       (snd (client_health_check demo_env demo_globals demo_client (demo_camera 1 ''rtsp://a'')
          demo_state)))) ''out/1.json'' =
     Some (Document (metadata (JStr ''NL'') (JStr ''Netherlands'') (JStr ''Delft'')
             (JStr ''rtsp://a'') (JNum 1) ''UNCONNECTED'')) \<and>
   files (snd (client_health_check demo_env demo_globals demo_client (demo_camera 1 ''rtsp://a'')
       (snd (client_health_check demo_env demo_globals demo_client (demo_camera 1 ''rtsp://a'')
          demo_state)))) ''out/3.json'' = None"
proof -
  let ?c = "demo_camera 1 ''rtsp://a''"
  let ?s1 = "snd (client_health_check demo_env demo_globals demo_client ?c demo_state)"
  let ?s2 = "snd (client_health_check demo_env demo_globals demo_client ?c ?s1)"
  have keys: "has_keys ?c [''rtspUrl'', ''cameraId'', ''countryCode'', ''countryName'', ''city'',
      ''labels'']"
    by (simp add: demo_camera_def)
  have d: "disk_ok demo_env"
    by (simp add: disk_ok_def demo_defs)
  have p1: "fst (video_capture_read demo_env (field_of ?c ''rtspUrl'') (world demo_state)) =
      Inr (True, [7])"
    by (simp add: field_of_def demo_defs)
  have "world ?s1 = 1"
    by (simp add: client_health_check_def persist_open_def
      update_camera_def camera_to_save_def imwrite_def read_binary_def open_write_def
      json_dump_def img_path_def json_path_def demo_defs run_defs)
  then have p2: "fst (video_capture_read demo_env (field_of ?c ''rtspUrl'') (world ?s1)) =
      Inr (False, [])"
    by (simp add: field_of_def demo_defs)
  have paths: "json_path demo_env demo_client (JNum 1) = ''out/1.json''"
    "img_path demo_env demo_client (JNum 1) = ''out/1.jpg''"
    by (simp_all add: json_path_def img_path_def demo_defs)
  have f: "field_of ?c ''countryCode'' = JStr ''NL''" "field_of ?c ''countryName'' = JStr ''Netherlands''"
    "field_of ?c ''city'' = JStr ''Delft''" "field_of ?c ''rtspUrl'' = JStr ''rtsp://a''"
    "field_of ?c ''cameraId'' = JNum 1"
    by (simp_all add: field_of_def demo_camera_def)
  have "files ?s2 ''out/3.json'' = files demo_state ''out/3.json''"
    using persisting_twice [OF keys keys refl d refl refl p1 p2]
    by (simp add: paths f)
  moreover have "files ?s2 ''out/1.json'' = Some (Document (metadata (JStr ''NL'')
      (JStr ''Netherlands'') (JStr ''Delft'') (JStr ''rtsp://a'') (JNum 1) ''UNCONNECTED''))"
    using persisting_twice [OF keys keys refl d refl refl p1 p2]
    by (simp add: paths f)
  ultimately show ?thesis
    by (simp add: demo_state_def)
qed


end
